theory Spec2Isabelle
  imports Main
begin

section \<open>Rainbow3D::UniquePtr: the run-time model\<close>

text \<open>
  The header \<^verbatim>\<open>UniquePtr.h\<close> defines the primary template \<^verbatim>\<open>UniquePtr<T, Deleter>\<close> and the
  partial specialisation \<^verbatim>\<open>UniquePtr<T[], Deleter>\<close>. Both hold two private members,
  \<^verbatim>\<open>pointer _ptr\<close> and \<^verbatim>\<open>deleter_type _d\<close>.

  A stored pointer is either \<^verbatim>\<open>nullptr\<close> or the address of a resource; the test
  \<^verbatim>\<open>if (_ptr)\<close> of the source is \<open>p \<noteq> nullptr\<close> here.
\<close>

datatype pointer = nullptr | Addr nat

text \<open>
  The two data members. An identifier cannot start with an underscore, so \<^verbatim>\<open>_ptr\<close> is
  \<open>m_ptr\<close> and \<^verbatim>\<open>_d\<close> is \<open>m_d\<close>. The deleter is a value of an arbitrary type \<open>'d\<close>.
\<close>

record 'd UniquePtr =
  m_ptr :: pointer
  m_d :: 'd

text \<open>
  Move assignment compares \<^verbatim>\<open>this\<close> with \<^verbatim>\<open>std::addressof(r)\<close>, and \<^verbatim>\<open>Swap\<close> passes the
  same objects through three moves, so handles are objects with an identity: the world
  holds the live handle objects in a list, and a handle is referred to by its position
  there. A local handle (the \<^verbatim>\<open>temp\<close> of \<^verbatim>\<open>Swap\<close>) is pushed at the end and popped when its
  scope ends.

  The deleter is the instrumented one of the test scenarios: the call \<^verbatim>\<open>_d(p)\<close> is
  recorded with the deleter that was called, its argument, and the handle objects as
  they are at the moment of the call (what a deleter reading back into a handle would
  see). It does not write to the handles.
\<close>

record 'd invocation =
  callee :: 'd
  arg :: pointer
  seen :: "'d UniquePtr list"

record 'd world =
  objs :: "'d UniquePtr list"
  calls :: "'d invocation list"

definition invoke :: "'d \<Rightarrow> pointer \<Rightarrow> 'd world \<Rightarrow> 'd world" where
  "invoke d p w = w\<lparr>calls := calls w @ [\<lparr>callee = d, arg = p, seen = objs w\<rparr>]\<rparr>"

text \<open>Reading and writing the members of the handle at position \<open>this\<close>.\<close>

definition set_ptr :: "nat \<Rightarrow> pointer \<Rightarrow> 'd world \<Rightarrow> 'd world" where
  "set_ptr this p w = w\<lparr>objs := (objs w)[this := (objs w ! this)\<lparr>m_ptr := p\<rparr>]\<rparr>"

definition set_d :: "nat \<Rightarrow> 'd \<Rightarrow> 'd world \<Rightarrow> 'd world" where
  "set_d this d w = w\<lparr>objs := (objs w)[this := (objs w ! this)\<lparr>m_d := d\<rparr>]\<rparr>"

subsection \<open>The primary template\<close>

text \<open>\<^verbatim>\<open>pointer Get() const noexcept { return _ptr; }\<close>\<close>

definition Get :: "nat \<Rightarrow> 'd world \<Rightarrow> pointer" where
  "Get this w = m_ptr (objs w ! this)"

text \<open>\<^verbatim>\<open>deleter_type& GetDeleter() noexcept { return _d; }\<close>\<close>

definition GetDeleter :: "nat \<Rightarrow> 'd world \<Rightarrow> 'd" where
  "GetDeleter this w = m_d (objs w ! this)"

text \<open>\<^verbatim>\<open>~UniquePtr() { if (_ptr) { _d(_ptr); } }\<close>\<close>

definition dtor :: "nat \<Rightarrow> 'd world \<Rightarrow> 'd world" where
  "dtor this w =
     (if Get this w \<noteq> nullptr then invoke (GetDeleter this w) (Get this w) w else w)"

text \<open>\<^verbatim>\<open>pointer Release() noexcept { auto temp = _ptr; _ptr = nullptr; return temp; }\<close>\<close>

definition Release :: "nat \<Rightarrow> 'd world \<Rightarrow> pointer \<times> 'd world" where
  "Release this w = (let temp = Get this w in (temp, set_ptr this nullptr w))"

text \<open>
  \<^verbatim>\<open>void Reset(pointer _Ptr = nullptr) noexcept {
      pointer _Old = std::exchange(_ptr, _Ptr);
      if (_Old) { _d(_Old); }
  }\<close>
  \<^verbatim>\<open>std::exchange\<close> stores the new value and returns the old one.
\<close>

definition Reset :: "nat \<Rightarrow> pointer \<Rightarrow> 'd world \<Rightarrow> 'd world" where
  "Reset this p w =
     (let old = Get this w;
          w1 = set_ptr this p w
      in if old \<noteq> nullptr then invoke (GetDeleter this w1) old w1 else w1)"

text \<open>
  \<^verbatim>\<open>UniquePtr(UniquePtr&& r) noexcept : _ptr(r.Release()), _d(std::forward<deleter_type>(r._d)) {}\<close>
  The constructed object is a new one, pushed after the live objects. The functions of
  this subsection and of the next are the instantiations whose \<^verbatim>\<open>deleter_type\<close> is not a
  reference: each handle holds its own deleter, and moving a deleter leaves the source
  of the move as it was (as it does for function pointers and trivially copyable
  function objects). The instantiation with \<^verbatim>\<open>deleter_type = D&\<close>, where \<^verbatim>\<open>_d\<close> is an alias
  of a deleter object outside the handle, has a subsection of its own below.
\<close>

definition move_ctor :: "nat \<Rightarrow> 'd world \<Rightarrow> 'd world" where
  "move_ctor r w =
     (let (p, w1) = Release r w
      in w1\<lparr>objs := objs w1 @ [\<lparr>m_ptr = p, m_d = GetDeleter r w1\<rparr>]\<rparr>)"

text \<open>
  \<^verbatim>\<open>UniquePtr& operator=(UniquePtr&& r) noexcept {
      if (this != std::addressof(r)) {
          Reset(r.Release());
          _d = std::forward<deleter_type>(r._d);
      }
      return *this;
  }\<close>
\<close>

definition move_assign :: "nat \<Rightarrow> nat \<Rightarrow> 'd world \<Rightarrow> 'd world" where
  "move_assign this r w =
     (if this \<noteq> r then
        (let (p, w1) = Release r w;
             w2 = Reset this p w1
         in set_d this (GetDeleter r w2) w2)
      else w)"

text \<open>
  \<^verbatim>\<open>void Swap(UniquePtr& other) noexcept {
      UniquePtr temp = std::move(other);
      other = std::move(*this);
      *this = std::move(temp);
  }\<close>
  \<^verbatim>\<open>temp\<close> is destroyed when the function returns.
\<close>

definition Swap :: "nat \<Rightarrow> nat \<Rightarrow> 'd world \<Rightarrow> 'd world" where
  "Swap this other w =
     (let temp = length (objs w);
          w1 = move_ctor other w;
          w2 = move_assign other this w1;
          w3 = move_assign this temp w2;
          w4 = dtor temp w3
      in w4\<lparr>objs := butlast (objs w4)\<rparr>)"

subsection \<open>The specialisation for arrays\<close>

text \<open>
  \<^verbatim>\<open>Get\<close>, \<^verbatim>\<open>GetDeleter\<close>, the destructor and \<^verbatim>\<open>Release\<close> of \<^verbatim>\<open>UniquePtr<T[], Deleter>\<close> have
  the bodies of the primary template.
\<close>

definition Get_arr :: "nat \<Rightarrow> 'd world \<Rightarrow> pointer" where
  "Get_arr this w = m_ptr (objs w ! this)"

definition GetDeleter_arr :: "nat \<Rightarrow> 'd world \<Rightarrow> 'd" where
  "GetDeleter_arr this w = m_d (objs w ! this)"

definition dtor_arr :: "nat \<Rightarrow> 'd world \<Rightarrow> 'd world" where
  "dtor_arr this w =
     (if Get_arr this w \<noteq> nullptr
      then invoke (GetDeleter_arr this w) (Get_arr this w) w else w)"

definition Release_arr :: "nat \<Rightarrow> 'd world \<Rightarrow> pointer \<times> 'd world" where
  "Release_arr this w = (let temp = Get_arr this w in (temp, set_ptr this nullptr w))"

text \<open>
  \<^verbatim>\<open>template <typename U> requires ...
  void Reset(U p) noexcept { if (_ptr) { _d(_ptr); } _ptr = p; }\<close>
\<close>

definition Reset_arr :: "nat \<Rightarrow> pointer \<Rightarrow> 'd world \<Rightarrow> 'd world" where
  "Reset_arr this p w =
     (let w1 = (if Get_arr this w \<noteq> nullptr
                then invoke (GetDeleter_arr this w) (Get_arr this w) w else w)
      in set_ptr this p w1)"

text \<open>
  \<^verbatim>\<open>void Reset(std::nullptr_t p = nullptr) noexcept { if (_ptr) { _d(_ptr); } _ptr = p; }\<close>
  The only value of type \<^verbatim>\<open>std::nullptr_t\<close> is \<^verbatim>\<open>nullptr\<close>.
\<close>

definition Reset_arr_nullptr :: "nat \<Rightarrow> 'd world \<Rightarrow> 'd world" where
  "Reset_arr_nullptr this w =
     (let p = nullptr;
          w1 = (if Get_arr this w \<noteq> nullptr
                then invoke (GetDeleter_arr this w) (Get_arr this w) w else w)
      in set_ptr this p w1)"

text \<open>
  \<^verbatim>\<open>UniquePtr(UniquePtr&& r) noexcept { _ptr = r.Release(); _d = std::forward<deleter_type>(r._d); }\<close>
  The members are assigned in the body; the new object ends with the same two values.
\<close>

definition move_ctor_arr :: "nat \<Rightarrow> 'd world \<Rightarrow> 'd world" where
  "move_ctor_arr r w =
     (let (p, w1) = Release_arr r w
      in w1\<lparr>objs := objs w1 @ [\<lparr>m_ptr = p, m_d = GetDeleter_arr r w1\<rparr>]\<rparr>)"

text \<open>
  Move assignment has the text of the primary template; \<^verbatim>\<open>Reset(r.Release())\<close> selects the
  overload \<^verbatim>\<open>Reset(U)\<close> with \<^verbatim>\<open>U = pointer\<close>.
\<close>

definition move_assign_arr :: "nat \<Rightarrow> nat \<Rightarrow> 'd world \<Rightarrow> 'd world" where
  "move_assign_arr this r w =
     (if this \<noteq> r then
        (let (p, w1) = Release_arr r w;
             w2 = Reset_arr this p w1
         in set_d this (GetDeleter_arr r w2) w2)
      else w)"

definition Swap_arr :: "nat \<Rightarrow> nat \<Rightarrow> 'd world \<Rightarrow> 'd world" where
  "Swap_arr this other w =
     (let temp = length (objs w);
          w1 = move_ctor_arr other w;
          w2 = move_assign_arr other this w1;
          w3 = move_assign_arr this temp w2;
          w4 = dtor_arr temp w3
      in w4\<lparr>objs := butlast (objs w4)\<rparr>)"

subsection \<open>Assignment from nullptr and converting moves\<close>

text \<open>\<^verbatim>\<open>UniquePtr& operator=(std::nullptr_t) noexcept { Reset(); return *this; }\<close>\<close>

definition assign_nullptr :: "nat \<Rightarrow> 'd world \<Rightarrow> 'd world" where
  "assign_nullptr this w = Reset this nullptr w"

text \<open>In the specialisation for arrays \<^verbatim>\<open>Reset()\<close> is the overload taking \<^verbatim>\<open>std::nullptr_t\<close>.\<close>

definition assign_nullptr_arr :: "nat \<Rightarrow> 'd world \<Rightarrow> 'd world" where
  "assign_nullptr_arr this w = Reset_arr_nullptr this w"

text \<open>
  \<^verbatim>\<open>template <typename U, typename E> requires ...
  UniquePtr(UniquePtr<U, E>&& r) noexcept {
      _ptr = r.Release();
      _d = std::forward<E>(r.GetDeleter());
  }\<close>
  The source is a handle of another instantiation; its \<^verbatim>\<open>Release\<close> and \<^verbatim>\<open>GetDeleter\<close> have
  the bodies above. The implicit conversions of its pointer and of its deleter to the
  types of this instantiation are the identity here, since all handles of the world
  store values of the same two types.
\<close>

definition converting_move_ctor :: "nat \<Rightarrow> 'd world \<Rightarrow> 'd world" where
  "converting_move_ctor r w =
     (let (p, w1) = Release r w
      in w1\<lparr>objs := objs w1 @ [\<lparr>m_ptr = p, m_d = GetDeleter r w1\<rparr>]\<rparr>)"

text \<open>
  \<^verbatim>\<open>template <typename U, typename E> requires ...
  UniquePtr& operator=(UniquePtr<U, E>&& r) noexcept {
      Reset(r.Release());
      _d = std::forward<E>(r.GetDeleter());
      return *this;
  }\<close>
  There is no test for self-assignment in the converting form.
\<close>

definition converting_move_assign :: "nat \<Rightarrow> nat \<Rightarrow> 'd world \<Rightarrow> 'd world" where
  "converting_move_assign this r w =
     (let (p, w1) = Release r w;
          w2 = Reset this p w1
      in set_d this (GetDeleter r w2) w2)"

text \<open>The converting forms of the specialisation for arrays have the same two bodies.\<close>

definition converting_move_ctor_arr :: "nat \<Rightarrow> 'd world \<Rightarrow> 'd world" where
  "converting_move_ctor_arr r w =
     (let (p, w1) = Release_arr r w
      in w1\<lparr>objs := objs w1 @ [\<lparr>m_ptr = p, m_d = GetDeleter_arr r w1\<rparr>]\<rparr>)"

definition converting_move_assign_arr :: "nat \<Rightarrow> nat \<Rightarrow> 'd world \<Rightarrow> 'd world" where
  "converting_move_assign_arr this r w =
     (let (p, w1) = Release_arr r w;
          w2 = Reset_arr this p w1
      in set_d this (GetDeleter_arr r w2) w2)"

subsection \<open>The primary template with a deleter of reference type\<close>

text \<open>
  With \<^verbatim>\<open>deleter_type = D&\<close> the member \<^verbatim>\<open>_d\<close> is a reference, bound by the constructor
  \<^verbatim>\<open>UniquePtr(pointer p, deleter_type d) : _ptr(p), _d(d)\<close> to a deleter object of the
  caller. The deleter objects live in a list of their own, and the \<open>m_d\<close> of a handle is
  the position of the object its \<^verbatim>\<open>_d\<close> refers to; two handles may refer to the same
  object. A call is recorded with the value the deleter object has when it is called
  and with its argument.
\<close>

record 'd ref_world =
  handles :: "nat UniquePtr list"
  deleters :: "'d list"
  released :: "('d \<times> pointer) list"

definition Get_ref :: "nat \<Rightarrow> 'd ref_world \<Rightarrow> pointer" where
  "Get_ref this w = m_ptr (handles w ! this)"

text \<open>\<^verbatim>\<open>GetDeleter()\<close> returns \<^verbatim>\<open>_d\<close>, that is the deleter object referred to.\<close>

definition GetDeleter_ref :: "nat \<Rightarrow> 'd ref_world \<Rightarrow> 'd" where
  "GetDeleter_ref this w = deleters w ! m_d (handles w ! this)"

definition set_ptr_ref :: "nat \<Rightarrow> pointer \<Rightarrow> 'd ref_world \<Rightarrow> 'd ref_world" where
  "set_ptr_ref this p w = w\<lparr>handles := (handles w)[this := (handles w ! this)\<lparr>m_ptr := p\<rparr>]\<rparr>"

text \<open>
  An assignment \<^verbatim>\<open>_d = x\<close> assigns to the deleter object referred to; a reference is
  never bound again.
\<close>

definition assign_d_ref :: "nat \<Rightarrow> 'd \<Rightarrow> 'd ref_world \<Rightarrow> 'd ref_world" where
  "assign_d_ref this d w = w\<lparr>deleters := (deleters w)[m_d (handles w ! this) := d]\<rparr>"

text \<open>The call \<^verbatim>\<open>_d(p)\<close>.\<close>

definition invoke_ref :: "nat \<Rightarrow> pointer \<Rightarrow> 'd ref_world \<Rightarrow> 'd ref_world" where
  "invoke_ref this p w = w\<lparr>released := released w @ [(GetDeleter_ref this w, p)]\<rparr>"

text \<open>\<^verbatim>\<open>~UniquePtr() { if (_ptr) { _d(_ptr); } }\<close>\<close>

definition dtor_ref :: "nat \<Rightarrow> 'd ref_world \<Rightarrow> 'd ref_world" where
  "dtor_ref this w =
     (if Get_ref this w \<noteq> nullptr then invoke_ref this (Get_ref this w) w else w)"

text \<open>\<^verbatim>\<open>pointer Release() noexcept { auto temp = _ptr; _ptr = nullptr; return temp; }\<close>\<close>

definition Release_ref :: "nat \<Rightarrow> 'd ref_world \<Rightarrow> pointer \<times> 'd ref_world" where
  "Release_ref this w = (let temp = Get_ref this w in (temp, set_ptr_ref this nullptr w))"

text \<open>\<^verbatim>\<open>pointer _Old = std::exchange(_ptr, _Ptr); if (_Old) { _d(_Old); }\<close>\<close>

definition Reset_ref :: "nat \<Rightarrow> pointer \<Rightarrow> 'd ref_world \<Rightarrow> 'd ref_world" where
  "Reset_ref this p w =
     (let old = Get_ref this w;
          w1 = set_ptr_ref this p w
      in if old \<noteq> nullptr then invoke_ref this old w1 else w1)"

text \<open>
  \<^verbatim>\<open>UniquePtr(UniquePtr&& r) noexcept : _ptr(r.Release()), _d(std::forward<deleter_type>(r._d)) {}\<close>
  \<^verbatim>\<open>std::forward<D&>(r._d)\<close> is an lvalue, and the new \<^verbatim>\<open>_d\<close> is bound to the object \<^verbatim>\<open>r._d\<close>
  refers to.
\<close>

definition move_ctor_ref :: "nat \<Rightarrow> 'd ref_world \<Rightarrow> 'd ref_world" where
  "move_ctor_ref r w =
     (let (p, w1) = Release_ref r w
      in w1\<lparr>handles := handles w1 @ [\<lparr>m_ptr = p, m_d = m_d (handles w1 ! r)\<rparr>]\<rparr>)"

text \<open>
  \<^verbatim>\<open>if (this != std::addressof(r)) {
      Reset(r.Release());
      _d = std::forward<deleter_type>(r._d);
  }\<close>
  The second statement copies the deleter object of \<open>r\<close> into the deleter object of
  \<^verbatim>\<open>this\<close>.
\<close>

definition move_assign_ref :: "nat \<Rightarrow> nat \<Rightarrow> 'd ref_world \<Rightarrow> 'd ref_world" where
  "move_assign_ref this r w =
     (if this \<noteq> r then
        (let (p, w1) = Release_ref r w;
             w2 = Reset_ref this p w1
         in assign_d_ref this (GetDeleter_ref r w2) w2)
      else w)"

text \<open>\<^verbatim>\<open>Swap\<close>, with the text of the primary template.\<close>

definition Swap_ref :: "nat \<Rightarrow> nat \<Rightarrow> 'd ref_world \<Rightarrow> 'd ref_world" where
  "Swap_ref this other w =
     (let temp = length (handles w);
          w1 = move_ctor_ref other w;
          w2 = move_assign_ref other this w1;
          w3 = move_assign_ref this temp w2;
          w4 = dtor_ref temp w3
      in w4\<lparr>handles := butlast (handles w4)\<rparr>)"

subsection \<open>Indexing\<close>

text \<open>
  \<^verbatim>\<open>T& operator[](std::size_t i) const { return Get[i]; }\<close>
  The built-in subscript \<^verbatim>\<open>E1[E2]\<close> is \<^verbatim>\<open>*((E1)+(E2))\<close> and needs a pointer operand. Applied
  to a pointer to element \<open>a\<close> it designates element \<open>a + i\<close>; a reference is modelled
  by the address of the element it designates. Applied to the null pointer it is
  undefined. Applied to the name of a member function (which is not a pointer and not
  an object) the expression is ill-formed, so a use of the operator does not compile.
\<close>

datatype operand = FunctionName | PointerValue pointer

datatype failure = IllFormed | Undefined

fun subscript :: "operand \<Rightarrow> nat \<Rightarrow> failure + nat" where
  "subscript (PointerValue (Addr a)) i = Inr (a + i)"
| "subscript (PointerValue nullptr) i = Inl Undefined"
| "subscript FunctionName i = Inl IllFormed"

text \<open>The source subscripts the name \<^verbatim>\<open>Get\<close>, not the value of the call \<^verbatim>\<open>Get()\<close>.\<close>

definition operator_index :: "nat \<Rightarrow> nat \<Rightarrow> 'd world \<Rightarrow> failure + nat" where
  "operator_index this i w = subscript FunctionName i"

section \<open>The availability of the constructors\<close>

text \<open>
  The \<^verbatim>\<open>requires\<close> clauses decide at compile time whether a constructor takes part in
  overload resolution. A constructor is modelled by a function to \<open>option\<close>: \<open>None\<close> when
  its clause is false (the call is rejected by the compiler), and the constructed
  members otherwise.

  The types a clause inspects: \<^verbatim>\<open>std::nullptr_t\<close>, pointer types, and any other type by its
  name.
\<close>

datatype cpp_type = nullptr_t | Named string | PointerTo cpp_type

text \<open>\<^verbatim>\<open>std::is_pointer_v\<close> and \<^verbatim>\<open>std::remove_pointer_t\<close>.\<close>

fun is_pointer_v :: "cpp_type \<Rightarrow> bool" where
  "is_pointer_v (PointerTo T) = True"
| "is_pointer_v T = False"

fun remove_pointer_t :: "cpp_type \<Rightarrow> cpp_type" where
  "remove_pointer_t (PointerTo T) = T"
| "remove_pointer_t T = T"

text \<open>
  What the clauses ask of \<^verbatim>\<open>deleter_type\<close>, with the \<^verbatim>\<open>std\<close> trait each field stands for:
  \<^item> \<open>is_pointer\<close>: \<^verbatim>\<open>is_pointer_v<deleter_type>\<close>;
  \<^item> \<open>is_lvalue_reference\<close>: \<^verbatim>\<open>is_lvalue_reference_v<deleter_type>\<close>;
  \<^item> \<open>is_default_constructible\<close>: \<^verbatim>\<open>is_default_constructible_v<deleter_type>\<close>;
  \<^item> \<open>is_constructible_const_ref\<close>: \<^verbatim>\<open>is_constructible_v<deleter_type, const deleter_type&>\<close>;
  \<^item> \<open>is_constructible_rvalue\<close>: \<^verbatim>\<open>is_constructible_v<deleter_type, deleter_type&&>\<close>;
  \<^item> \<open>is_constructible_same\<close>: \<^verbatim>\<open>is_constructible_v<deleter_type, deleter_type>\<close>;
  \<^item> \<open>pointer_alias\<close>: the nested type \<^verbatim>\<open>std::remove_reference_t<deleter_type>::pointer\<close>, when
    the deleter declares one;
  \<^item> \<open>value_init\<close>: the value of the member initialiser \<^verbatim>\<open>_d()\<close>.
\<close>

record 'd deleter_traits =
  is_pointer :: bool
  is_lvalue_reference :: bool
  is_default_constructible :: bool
  is_constructible_const_ref :: bool
  is_constructible_rvalue :: bool
  is_constructible_same :: bool
  pointer_alias :: "cpp_type option"
  value_init :: 'd

text \<open>
  \<^verbatim>\<open>_Get_deleter_pointer_type<_Ty, _Dx_noref>::type\<close>: \<^verbatim>\<open>_Ty*\<close> in the primary template, and
  \<^verbatim>\<open>_Dx_noref::pointer\<close> in the specialisation chosen when that nested type exists.
\<close>

definition Get_deleter_pointer_type :: "cpp_type \<Rightarrow> 'd deleter_traits \<Rightarrow> cpp_type" where
  "Get_deleter_pointer_type T D =
     (case pointer_alias D of None \<Rightarrow> PointerTo T | Some P \<Rightarrow> P)"

subsection \<open>Constructors of the primary template\<close>

text \<open>
  \<^verbatim>\<open>requires !std::is_pointer_v<deleter_type> && std::is_default_constructible_v<deleter_type>
  constexpr UniquePtr() noexcept : _ptr(nullptr), _d() {}\<close>
\<close>

definition ctor_default :: "'d deleter_traits \<Rightarrow> 'd UniquePtr option" where
  "ctor_default D =
     (if \<not> is_pointer D \<and> is_default_constructible D
      then Some \<lparr>m_ptr = nullptr, m_d = value_init D\<rparr> else None)"

text \<open>\<^verbatim>\<open>constexpr UniquePtr(std::nullptr_t) noexcept : _ptr(nullptr), _d() {}\<close>, same clause.\<close>

definition ctor_nullptr :: "'d deleter_traits \<Rightarrow> 'd UniquePtr option" where
  "ctor_nullptr D =
     (if \<not> is_pointer D \<and> is_default_constructible D
      then Some \<lparr>m_ptr = nullptr, m_d = value_init D\<rparr> else None)"

text \<open>\<^verbatim>\<open>explicit UniquePtr(pointer p) noexcept : _ptr(p), _d() {}\<close>, same clause.\<close>

definition ctor_ptr :: "'d deleter_traits \<Rightarrow> pointer \<Rightarrow> 'd UniquePtr option" where
  "ctor_ptr D p =
     (if \<not> is_pointer D \<and> is_default_constructible D
      then Some \<lparr>m_ptr = p, m_d = value_init D\<rparr> else None)"

text \<open>
  \<^verbatim>\<open>requires !std::is_lvalue_reference_v<deleter_type> &&
           std::is_constructible_v<deleter_type, const deleter_type&>
  UniquePtr(pointer p, const deleter_type& d) noexcept : _ptr(p), _d(d) {}\<close>
\<close>

definition ctor_ptr_const_ref :: "'d deleter_traits \<Rightarrow> pointer \<Rightarrow> 'd \<Rightarrow> 'd UniquePtr option" where
  "ctor_ptr_const_ref D p d =
     (if \<not> is_lvalue_reference D \<and> is_constructible_const_ref D
      then Some \<lparr>m_ptr = p, m_d = d\<rparr> else None)"

text \<open>
  \<^verbatim>\<open>requires !std::is_lvalue_reference_v<deleter_type> &&
           std::is_constructible_v<deleter_type, deleter_type&&>
  UniquePtr(pointer p, deleter_type&& d) noexcept : _ptr(p), _d(std::move(d)) {}\<close>
\<close>

definition ctor_ptr_rvalue :: "'d deleter_traits \<Rightarrow> pointer \<Rightarrow> 'd \<Rightarrow> 'd UniquePtr option" where
  "ctor_ptr_rvalue D p d =
     (if \<not> is_lvalue_reference D \<and> is_constructible_rvalue D
      then Some \<lparr>m_ptr = p, m_d = d\<rparr> else None)"

text \<open>
  \<^verbatim>\<open>requires std::is_lvalue_reference_v<deleter_type> &&
           std::is_constructible_v<deleter_type, deleter_type>
  UniquePtr(pointer p, deleter_type d) noexcept : _ptr(p), _d(d) {}\<close>
\<close>

definition ctor_ptr_ref :: "'d deleter_traits \<Rightarrow> pointer \<Rightarrow> 'd \<Rightarrow> 'd UniquePtr option" where
  "ctor_ptr_ref D p d =
     (if is_lvalue_reference D \<and> is_constructible_same D
      then Some \<lparr>m_ptr = p, m_d = d\<rparr> else None)"

subsection \<open>Constructors of the specialisation for arrays\<close>

text \<open>
  The pointer-taking constructors are templates over the argument type \<^verbatim>\<open>U\<close>, and every
  one of them repeats the disjunction
  \<^verbatim>\<open>(std::is_same_v<U, pointer> || std::is_same_v<U, std::nullptr_t> ||
    (std::is_same_v<pointer, element_type*> && std::is_pointer_v<U> &&
     std::is_convertible_v<std::remove_pointer_t<U>(*)[], element_type(*)[]>))\<close>.
  The parameter \<open>conv V E\<close> stands for
  \<^verbatim>\<open>std::is_convertible_v<V(*)[], E(*)[]>\<close>, which the header takes from the standard
  library.
\<close>

definition ctor_arr_accepts ::
  "(cpp_type \<Rightarrow> cpp_type \<Rightarrow> bool) \<Rightarrow> cpp_type \<Rightarrow> 'd deleter_traits \<Rightarrow> cpp_type \<Rightarrow> bool" where
  "ctor_arr_accepts conv T D U =
     (let pointer_type = Get_deleter_pointer_type T D
      in U = pointer_type \<or> U = nullptr_t \<or>
         (pointer_type = PointerTo T \<and> is_pointer_v U \<and> conv (remove_pointer_t U) T))"

text \<open>
  The clause of \<^verbatim>\<open>Reset(U p)\<close> is the same rule without the \<^verbatim>\<open>std::nullptr_t\<close> case:
  \<^verbatim>\<open>requires std::is_same_v<U,pointer> ||
    (std::is_same_v<pointer, element_type*> && std::is_pointer_v<U> &&
     std::is_convertible_v<std::remove_pointer_t<U>(*)[], element_type(*)[]>)\<close>.
\<close>

definition Reset_arr_accepts ::
  "(cpp_type \<Rightarrow> cpp_type \<Rightarrow> bool) \<Rightarrow> cpp_type \<Rightarrow> 'd deleter_traits \<Rightarrow> cpp_type \<Rightarrow> bool" where
  "Reset_arr_accepts conv T D U =
     (let pointer_type = Get_deleter_pointer_type T D
      in U = pointer_type \<or>
         (pointer_type = PointerTo T \<and> is_pointer_v U \<and> conv (remove_pointer_t U) T))"

text \<open>The default and the \<^verbatim>\<open>std::nullptr_t\<close> constructor, as in the primary template.\<close>

definition ctor_arr_default :: "'d deleter_traits \<Rightarrow> 'd UniquePtr option" where
  "ctor_arr_default D =
     (if \<not> is_pointer D \<and> is_default_constructible D
      then Some \<lparr>m_ptr = nullptr, m_d = value_init D\<rparr> else None)"

definition ctor_arr_nullptr :: "'d deleter_traits \<Rightarrow> 'd UniquePtr option" where
  "ctor_arr_nullptr D =
     (if \<not> is_pointer D \<and> is_default_constructible D
      then Some \<lparr>m_ptr = nullptr, m_d = value_init D\<rparr> else None)"

text \<open>
  \<^verbatim>\<open>template <typename U> requires !std::is_pointer_v<deleter_type> &&
     std::is_default_constructible_v<deleter_type> && (...)
  explicit UniquePtr(U p) noexcept : _ptr(p), _d() {}\<close>
  The argument is given by its type \<open>U\<close> and its value \<open>p\<close>.
\<close>

definition ctor_arr_ptr ::
  "(cpp_type \<Rightarrow> cpp_type \<Rightarrow> bool) \<Rightarrow> cpp_type \<Rightarrow> 'd deleter_traits \<Rightarrow> cpp_type \<Rightarrow> pointer
     \<Rightarrow> 'd UniquePtr option" where
  "ctor_arr_ptr conv T D U p =
     (if \<not> is_pointer D \<and> is_default_constructible D \<and> ctor_arr_accepts conv T D U
      then Some \<lparr>m_ptr = p, m_d = value_init D\<rparr> else None)"

text \<open>\<^verbatim>\<open>UniquePtr(U p, const deleter_type& d) noexcept : _ptr(p), _d(d) {}\<close>\<close>

definition ctor_arr_ptr_const_ref ::
  "(cpp_type \<Rightarrow> cpp_type \<Rightarrow> bool) \<Rightarrow> cpp_type \<Rightarrow> 'd deleter_traits \<Rightarrow> cpp_type \<Rightarrow> pointer \<Rightarrow> 'd
     \<Rightarrow> 'd UniquePtr option" where
  "ctor_arr_ptr_const_ref conv T D U p d =
     (if \<not> is_lvalue_reference D \<and> is_constructible_const_ref D \<and> ctor_arr_accepts conv T D U
      then Some \<lparr>m_ptr = p, m_d = d\<rparr> else None)"

text \<open>\<^verbatim>\<open>UniquePtr(U p, deleter_type&& d) noexcept : _ptr(p), _d(std::move(d)) {}\<close>\<close>

definition ctor_arr_ptr_rvalue ::
  "(cpp_type \<Rightarrow> cpp_type \<Rightarrow> bool) \<Rightarrow> cpp_type \<Rightarrow> 'd deleter_traits \<Rightarrow> cpp_type \<Rightarrow> pointer \<Rightarrow> 'd
     \<Rightarrow> 'd UniquePtr option" where
  "ctor_arr_ptr_rvalue conv T D U p d =
     (if \<not> is_lvalue_reference D \<and> is_constructible_rvalue D \<and> ctor_arr_accepts conv T D U
      then Some \<lparr>m_ptr = p, m_d = d\<rparr> else None)"

text \<open>\<^verbatim>\<open>UniquePtr(U p, deleter_type d) noexcept : _ptr(p), _d(d) {}\<close>\<close>

definition ctor_arr_ptr_ref ::
  "(cpp_type \<Rightarrow> cpp_type \<Rightarrow> bool) \<Rightarrow> cpp_type \<Rightarrow> 'd deleter_traits \<Rightarrow> cpp_type \<Rightarrow> pointer \<Rightarrow> 'd
     \<Rightarrow> 'd UniquePtr option" where
  "ctor_arr_ptr_ref conv T D U p d =
     (if is_lvalue_reference D \<and> is_constructible_same D \<and> ctor_arr_accepts conv T D U
      then Some \<lparr>m_ptr = p, m_d = d\<rparr> else None)"

section \<open>Handles of an instantiation with a function pointer as releaser\<close>

text \<open>
  With a function pointer type as \<^verbatim>\<open>deleter_type\<close> the stored releaser is a function
  pointer, null or not; its values are modelled by \<open>pointer\<close>. The invariant below says
  that no handle stores the null one and that none of the recorded calls was a call of
  the null one.
\<close>

definition non_null_releasers :: "pointer world \<Rightarrow> bool" where
  "non_null_releasers w =
     ((\<forall>h \<in> set (objs w). m_d h \<noteq> nullptr) \<and> (\<forall>c \<in> set (calls w). callee c \<noteq> nullptr))"

text \<open>
  The handles a client can construct without ever supplying a null function pointer:
  every constructor of both variants, with any arguments that satisfy its \<^verbatim>\<open>requires\<close>
  clause, the releaser argument being non-null where there is one.
\<close>

inductive built :: "pointer deleter_traits \<Rightarrow> pointer UniquePtr \<Rightarrow> bool" for D where
  by_default: "ctor_default D = Some h \<Longrightarrow> built D h"
| by_nullptr: "ctor_nullptr D = Some h \<Longrightarrow> built D h"
| by_ptr: "ctor_ptr D p = Some h \<Longrightarrow> built D h"
| by_ptr_const_ref: "d \<noteq> nullptr \<Longrightarrow> ctor_ptr_const_ref D p d = Some h \<Longrightarrow> built D h"
| by_ptr_rvalue: "d \<noteq> nullptr \<Longrightarrow> ctor_ptr_rvalue D p d = Some h \<Longrightarrow> built D h"
| by_ptr_ref: "d \<noteq> nullptr \<Longrightarrow> ctor_ptr_ref D p d = Some h \<Longrightarrow> built D h"
| by_arr_default: "ctor_arr_default D = Some h \<Longrightarrow> built D h"
| by_arr_nullptr: "ctor_arr_nullptr D = Some h \<Longrightarrow> built D h"
| by_arr_ptr: "ctor_arr_ptr conv T D U p = Some h \<Longrightarrow> built D h"
| by_arr_ptr_const_ref:
    "d \<noteq> nullptr \<Longrightarrow> ctor_arr_ptr_const_ref conv T D U p d = Some h \<Longrightarrow> built D h"
| by_arr_ptr_rvalue:
    "d \<noteq> nullptr \<Longrightarrow> ctor_arr_ptr_rvalue conv T D U p d = Some h \<Longrightarrow> built D h"
| by_arr_ptr_ref:
    "d \<noteq> nullptr \<Longrightarrow> ctor_arr_ptr_ref conv T D U p d = Some h \<Longrightarrow> built D h"

text \<open>
  The worlds a client can reach: starting with no handle, it can construct a handle,
  and apply any member function of either variant to the handles that exist (the
  destructor included; the storage of a destroyed handle stays in the list). Through
  the reference returned by \<^verbatim>\<open>GetDeleter()\<close> it can assign a new releaser to a handle; the
  client supplies no null function pointer there either.
\<close>

inductive reachable :: "pointer deleter_traits \<Rightarrow> pointer world \<Rightarrow> bool" for D where
  start: "reachable D \<lparr>objs = [], calls = []\<rparr>"
| construct: "reachable D w \<Longrightarrow> built D h \<Longrightarrow> reachable D (w\<lparr>objs := objs w @ [h]\<rparr>)"
| do_move_ctor: "reachable D w \<Longrightarrow> r < length (objs w) \<Longrightarrow> reachable D (move_ctor r w)"
| do_converting_move_ctor:
    "reachable D w \<Longrightarrow> r < length (objs w) \<Longrightarrow> reachable D (converting_move_ctor r w)"
| do_dtor: "reachable D w \<Longrightarrow> this < length (objs w) \<Longrightarrow> reachable D (dtor this w)"
| do_move_assign:
    "reachable D w \<Longrightarrow> this < length (objs w) \<Longrightarrow> r < length (objs w)
     \<Longrightarrow> reachable D (move_assign this r w)"
| do_converting_move_assign:
    "reachable D w \<Longrightarrow> this < length (objs w) \<Longrightarrow> r < length (objs w)
     \<Longrightarrow> reachable D (converting_move_assign this r w)"
| do_assign_nullptr:
    "reachable D w \<Longrightarrow> this < length (objs w) \<Longrightarrow> reachable D (assign_nullptr this w)"
| do_Release:
    "reachable D w \<Longrightarrow> this < length (objs w) \<Longrightarrow> reachable D (snd (Release this w))"
| do_Reset: "reachable D w \<Longrightarrow> this < length (objs w) \<Longrightarrow> reachable D (Reset this p w)"
| do_Swap:
    "reachable D w \<Longrightarrow> this < length (objs w) \<Longrightarrow> other < length (objs w)
     \<Longrightarrow> reachable D (Swap this other w)"
| do_GetDeleter_assign:
    "reachable D w \<Longrightarrow> this < length (objs w) \<Longrightarrow> d \<noteq> nullptr
     \<Longrightarrow> reachable D (set_d this d w)"
| do_move_ctor_arr:
    "reachable D w \<Longrightarrow> r < length (objs w) \<Longrightarrow> reachable D (move_ctor_arr r w)"
| do_converting_move_ctor_arr:
    "reachable D w \<Longrightarrow> r < length (objs w) \<Longrightarrow> reachable D (converting_move_ctor_arr r w)"
| do_dtor_arr: "reachable D w \<Longrightarrow> this < length (objs w) \<Longrightarrow> reachable D (dtor_arr this w)"
| do_move_assign_arr:
    "reachable D w \<Longrightarrow> this < length (objs w) \<Longrightarrow> r < length (objs w)
     \<Longrightarrow> reachable D (move_assign_arr this r w)"
| do_converting_move_assign_arr:
    "reachable D w \<Longrightarrow> this < length (objs w) \<Longrightarrow> r < length (objs w)
     \<Longrightarrow> reachable D (converting_move_assign_arr this r w)"
| do_assign_nullptr_arr:
    "reachable D w \<Longrightarrow> this < length (objs w) \<Longrightarrow> reachable D (assign_nullptr_arr this w)"
| do_Release_arr:
    "reachable D w \<Longrightarrow> this < length (objs w) \<Longrightarrow> reachable D (snd (Release_arr this w))"
| do_Reset_arr:
    "reachable D w \<Longrightarrow> this < length (objs w) \<Longrightarrow> reachable D (Reset_arr this p w)"
| do_Reset_arr_nullptr:
    "reachable D w \<Longrightarrow> this < length (objs w) \<Longrightarrow> reachable D (Reset_arr_nullptr this w)"
| do_Swap_arr:
    "reachable D w \<Longrightarrow> this < length (objs w) \<Longrightarrow> other < length (objs w)
     \<Longrightarrow> reachable D (Swap_arr this other w)"

section \<open>Example instantiations\<close>

text \<open>
  Three handles with deleters \<open>10\<close>, \<open>20\<close> and \<open>30\<close>: the first holds \<open>X = Addr 1\<close>, the
  second \<open>Y = Addr 2\<close>, the third is empty. No deleter has been called yet.
\<close>

definition scenario :: "nat world" where
  "scenario = \<lparr>objs = [\<lparr>m_ptr = Addr 1, m_d = 10\<rparr>, \<lparr>m_ptr = Addr 2, m_d = 20\<rparr>,
                        \<lparr>m_ptr = nullptr, m_d = 30\<rparr>],
               calls = []\<rparr>"

text \<open>
  The traits of a function object such as \<^verbatim>\<open>std::default_delete<T>\<close>: a class type that
  can be default, copy and move constructed, with no nested \<^verbatim>\<open>pointer\<close>.
\<close>

definition function_object_deleter :: "nat deleter_traits" where
  "function_object_deleter =
     \<lparr>is_pointer = False, is_lvalue_reference = False, is_default_constructible = True,
      is_constructible_const_ref = True, is_constructible_rvalue = True,
      is_constructible_same = True, pointer_alias = None, value_init = 0\<rparr>"

text \<open>
  The traits of a plain function pointer type such as \<^verbatim>\<open>void (*)(T*)\<close>. Its values are
  the null function pointer and the addresses of functions; value initialisation gives
  the null one.
\<close>

definition function_pointer_deleter :: "pointer deleter_traits" where
  "function_pointer_deleter =
     \<lparr>is_pointer = True, is_lvalue_reference = False, is_default_constructible = True,
      is_constructible_const_ref = True, is_constructible_rvalue = True,
      is_constructible_same = True, pointer_alias = None, value_init = nullptr\<rparr>"

text \<open>
  The traits of a reference to a function object, \<^verbatim>\<open>Del&\<close>: not default constructible.
  With \<^verbatim>\<open>deleter_type = Del&\<close> both \<^verbatim>\<open>const deleter_type&\<close> and \<^verbatim>\<open>deleter_type&&\<close> collapse to
  \<^verbatim>\<open>Del&\<close>, so the three \<^verbatim>\<open>is_constructible_v\<close> traits are all
  \<^verbatim>\<open>is_constructible_v<Del&, Del&>\<close>, which is true. No value is ever built by \<^verbatim>\<open>_d()\<close>;
  \<open>value_init\<close> is a placeholder.
\<close>

definition reference_deleter :: "nat deleter_traits" where
  "reference_deleter =
     \<lparr>is_pointer = False, is_lvalue_reference = True, is_default_constructible = False,
      is_constructible_const_ref = True, is_constructible_rvalue = True,
      is_constructible_same = True, pointer_alias = None, value_init = 0\<rparr>"

text \<open>
  Two handles of \<^verbatim>\<open>UniquePtr<T, Del&>\<close>: \<open>a\<close> holds \<open>X = Addr 1\<close> and refers to the deleter object
  at position \<open>0\<close>, whose value is \<open>10\<close>; \<open>b\<close> holds \<open>Y = Addr 2\<close> and refers to the deleter
  object at position \<open>1\<close>, whose value is \<open>20\<close>.
\<close>

definition ref_scenario :: "nat ref_world" where
  "ref_scenario = \<lparr>handles = [\<lparr>m_ptr = Addr 1, m_d = 0\<rparr>, \<lparr>m_ptr = Addr 2, m_d = 1\<rparr>],
                   deleters = [10, 20], released = []\<rparr>"

text \<open>
  One handle with the function at \<open>Addr 8\<close> as releaser, after its destructor has run on
  the resource \<open>Addr 1\<close>.
\<close>

definition fp_world :: "pointer world" where
  "fp_world = \<lparr>objs = [\<lparr>m_ptr = Addr 1, m_d = Addr 8\<rparr>],
     calls = [\<lparr>callee = Addr 8, arg = Addr 1, seen = [\<lparr>m_ptr = Addr 1, m_d = Addr 8\<rparr>]\<rparr>]\<rparr>"

section \<open>Properties\<close>

text \<open>The member accesses, unfolded together in the proofs below.\<close>

lemmas member_defs =
  Get_def GetDeleter_def Get_arr_def GetDeleter_arr_def set_ptr_def set_d_def invoke_def

lemma UniquePtr_copy_fields:
  "h\<lparr>m_ptr := m_ptr g, m_d := m_d g\<rparr> = (g :: 'd UniquePtr)"
  "\<lparr>m_ptr = m_ptr g, m_d = m_d g\<rparr> = g"
  by (cases h; cases g; simp)+

subsection \<open>Release\<close>

text \<open>
  Claim C6. For every handle, \<^verbatim>\<open>Release()\<close> returns the pointer that \<^verbatim>\<open>Get()\<close> returned
  immediately before the call; afterwards \<^verbatim>\<open>Get()\<close> returns null; the call does not invoke
  the releaser; the stored releaser is unchanged. This holds for the primary template
  and for the array specialisation.
\<close>

theorem Release_returns_pointer_and_empties:
  assumes "this < length (objs w)"
  shows "fst (Release this w) = Get this w
       \<and> Get this (snd (Release this w)) = nullptr
       \<and> calls (snd (Release this w)) = calls w
       \<and> GetDeleter this (snd (Release this w)) = GetDeleter this w
       \<and> fst (Release_arr this w) = Get_arr this w
       \<and> Get_arr this (snd (Release_arr this w)) = nullptr
       \<and> calls (snd (Release_arr this w)) = calls w
       \<and> GetDeleter_arr this (snd (Release_arr this w)) = GetDeleter_arr this w"
  using assms
  by (simp add: Release_def Release_arr_def Get_def Get_arr_def GetDeleter_def
      GetDeleter_arr_def set_ptr_def)

theorem Release_returns_pointer_and_empties_witness:
  "fst (Release 0 \<lparr>objs = [\<lparr>m_ptr = Addr 7, m_d = (3::nat)\<rparr>], calls = []\<rparr>) = Addr 7
   \<and> Get 0 (snd (Release 0 \<lparr>objs = [\<lparr>m_ptr = Addr 7, m_d = (3::nat)\<rparr>], calls = []\<rparr>)) = nullptr
   \<and> calls (snd (Release 0 \<lparr>objs = [\<lparr>m_ptr = Addr 7, m_d = (3::nat)\<rparr>], calls = []\<rparr>)) = []
   \<and> GetDeleter 0 (snd (Release 0 \<lparr>objs = [\<lparr>m_ptr = Addr 7, m_d = (3::nat)\<rparr>], calls = []\<rparr>)) = 3"
  using Release_returns_pointer_and_empties
    [of 0 "\<lparr>objs = [\<lparr>m_ptr = Addr 7, m_d = (3::nat)\<rparr>], calls = []\<rparr>"]
  by (simp add: Get_def GetDeleter_def)


subsection \<open>Destruction\<close>

text \<open>
  Claim C7. For every handle, destruction invokes the releaser exactly once, with the
  stored pointer, if \<^verbatim>\<open>Get()\<close> is non-null at destruction, and zero times if \<^verbatim>\<open>Get()\<close> is
  null; in both variants. The calls made by the destructor are the calls it appends to
  the record: one call of the stored deleter on the stored pointer, or none.
\<close>

theorem dtor_invokes_releaser_once_iff_nonnull:
  "calls (dtor this w) =
     calls w @ (if Get this w \<noteq> nullptr
                then [\<lparr>callee = GetDeleter this w, arg = Get this w, seen = objs w\<rparr>] else [])
   \<and> objs (dtor this w) = objs w
   \<and> calls (dtor_arr this w) =
     calls w @ (if Get_arr this w \<noteq> nullptr
                then [\<lparr>callee = GetDeleter_arr this w, arg = Get_arr this w, seen = objs w\<rparr>]
                else [])
   \<and> objs (dtor_arr this w) = objs w"
  by (simp add: dtor_def dtor_arr_def invoke_def)

theorem dtor_invokes_releaser_once_iff_nonnull_witness:
  "calls (dtor 0 scenario) = [\<lparr>callee = 10, arg = Addr 1, seen = objs scenario\<rparr>]
   \<and> calls (dtor 2 scenario) = []
   \<and> calls (dtor_arr 1 scenario) = [\<lparr>callee = 20, arg = Addr 2, seen = objs scenario\<rparr>]
   \<and> calls (dtor_arr 2 scenario) = []"
  using dtor_invokes_releaser_once_iff_nonnull [of 0 scenario]
    dtor_invokes_releaser_once_iff_nonnull [of 1 scenario]
    dtor_invokes_releaser_once_iff_nonnull [of 2 scenario]
  by (simp add: scenario_def member_defs)

subsection \<open>Reset\<close>

text \<open>
  The order of the two steps of \<^verbatim>\<open>Reset\<close>, read off the record of the call: in the primary
  template the deleter runs when the handle already stores the new pointer; in the
  specialisation for arrays it runs when the handle still stores the old one.
\<close>

lemma Reset_installs_then_releases:
  assumes "this < length (objs w)" and "Get this w \<noteq> nullptr"
  shows "calls (Reset this p w) =
           calls w @ [\<lparr>callee = GetDeleter this w, arg = Get this w,
                       seen = (objs w)[this := (objs w ! this)\<lparr>m_ptr := p\<rparr>]\<rparr>]"
    and "m_ptr (seen (last (calls (Reset this p w))) ! this) = p"
    and "Get this (Reset this p w) = p"
  using assms by (auto simp add: Reset_def member_defs Let_def)

lemma Reset_arr_releases_then_installs:
  assumes "this < length (objs w)" and "Get_arr this w \<noteq> nullptr"
  shows "calls (Reset_arr this p w) =
           calls w @ [\<lparr>callee = GetDeleter_arr this w, arg = Get_arr this w, seen = objs w\<rparr>]"
    and "m_ptr (seen (last (calls (Reset_arr this p w))) ! this) = Get_arr this w"
    and "Get_arr this (Reset_arr this p w) = p"
  using assms by (auto simp add: Reset_arr_def member_defs Let_def)

lemma Reset_arr_nullptr_eq: "Reset_arr_nullptr this w = Reset_arr this nullptr w"
  by (simp add: Reset_arr_nullptr_def Reset_arr_def)

text \<open>
  Claim C1. For the array variant, both \<^verbatim>\<open>Reset\<close> overloads should install the new
  pointer before the releaser is invoked on the old one, so that a releaser reading
  back into the handle observes the new value. The code invokes the releaser first:
  for the handle holding \<open>Addr 1\<close>, during \<^verbatim>\<open>Reset(Addr 9)\<close> and during \<^verbatim>\<open>Reset(nullptr)\<close> the
  releaser, called on \<open>Addr 1\<close>, sees the handle still storing \<open>Addr 1\<close>. The primary
  template's \<^verbatim>\<open>Reset\<close> on the same input lets it see \<open>Addr 9\<close>.
\<close>

theorem Reset_arr_invokes_releaser_before_install:
  "map (\<lambda>c. (arg c, m_ptr (seen c ! 0))) (calls (Reset_arr 0 (Addr 9) scenario))
     = [(Addr 1, Addr 1)]
   \<and> Get_arr 0 (Reset_arr 0 (Addr 9) scenario) = Addr 9
   \<and> map (\<lambda>c. (arg c, m_ptr (seen c ! 0))) (calls (Reset_arr_nullptr 0 scenario))
     = [(Addr 1, Addr 1)]
   \<and> Get_arr 0 (Reset_arr_nullptr 0 scenario) = nullptr
   \<and> map (\<lambda>c. (arg c, m_ptr (seen c ! 0))) (calls (Reset 0 (Addr 9) scenario))
     = [(Addr 1, Addr 9)]"
  by (simp add: Reset_arr_def Reset_arr_nullptr_def Reset_def scenario_def member_defs)

text \<open>
  Claim C10. For the scalar variant, \<^verbatim>\<open>Reset(p)\<close> with \<open>p\<close> the non-null pointer the handle
  already stores invokes the releaser exactly once, on \<open>p\<close>, and leaves \<^verbatim>\<open>Get() == p\<close>:
  there is no test for resetting to the held pointer, and the handle is unchanged.
\<close>

theorem Reset_to_held_pointer_releases_it:
  assumes "this < length (objs w)" and "Get this w = p" and "p \<noteq> nullptr"
  shows "calls (Reset this p w) =
           calls w @ [\<lparr>callee = GetDeleter this w, arg = p, seen = objs w\<rparr>]
       \<and> Get this (Reset this p w) = p
       \<and> objs (Reset this p w) = objs w"
  using assms by (auto simp add: Reset_def member_defs Let_def)

theorem Reset_to_held_pointer_releases_it_witness:
  "calls (Reset 0 (Addr 1) scenario) = [\<lparr>callee = 10, arg = Addr 1, seen = objs scenario\<rparr>]
   \<and> Get 0 (Reset 0 (Addr 1) scenario) = Addr 1
   \<and> objs (Reset 0 (Addr 1) scenario) = objs scenario"
proof -
  have valid: "0 < length (objs scenario)" and held: "Get 0 scenario = Addr 1"
    by (simp_all add: scenario_def Get_def)
  have "GetDeleter 0 scenario = 10" and "calls scenario = []"
    by (simp_all add: scenario_def GetDeleter_def)
  with Reset_to_held_pointer_releases_it [OF valid held] show ?thesis
    by simp
qed

subsection \<open>Move construction and move assignment\<close>

text \<open>
  Claim C4. Move-assigning a handle to itself is a no-op, in both variants: the world
  after the call is the world before it, so the stored pointer and the stored releaser
  are unchanged and no releaser call is recorded. The test is on the identity of the
  two handle objects (\<^verbatim>\<open>this != std::addressof(r)\<close>), not on what they hold.
\<close>

theorem self_move_assign_is_noop:
  "move_assign h h w = w \<and> move_assign_arr h h w = w"
  by (simp add: move_assign_def move_assign_arr_def)

theorem self_move_assign_is_noop_witness:
  "move_assign 0 0 scenario = scenario \<and> move_assign_arr 1 1 scenario = scenario"
  using self_move_assign_is_noop [of 0 scenario] self_move_assign_is_noop [of 1 scenario]
  by simp

text \<open>
  Claim C3, as stated: after a move construction or a move assignment between distinct
  handles the releaser has not been invoked. For move assignment this fails when the
  destination holds a resource: assigning the handle of \<open>Addr 1\<close> to the handle of
  \<open>Addr 2\<close> calls the destination's deleter \<open>20\<close> on \<open>Addr 2\<close>.
\<close>

theorem move_assign_invokes_releaser_counterexample:
  "calls scenario = []
   \<and> map (\<lambda>c. (callee c, arg c)) (calls (move_assign 1 0 scenario)) = [(20, Addr 2)]"
  by (simp add: move_assign_def Release_def Reset_def scenario_def member_defs)

text \<open>
  Claim C3, amended. For every pair of distinct handles, after a move construction or a
  move assignment the source's \<^verbatim>\<open>Get()\<close> returns null and the destination's \<^verbatim>\<open>Get()\<close> returns
  the pointer the source held before the call. Move construction invokes no releaser.
  Move assignment invokes no releaser when the destination was empty; otherwise it
  invokes the destination's previous releaser exactly once, on the destination's
  previous pointer. The object built by the move constructor is the one at position
  \<open>length (objs w)\<close>.
\<close>

theorem move_transfers_pointer:
  assumes "r < length (objs w)" and "this < length (objs w)" and "this \<noteq> r"
  shows "Get r (move_ctor r w) = nullptr
       \<and> Get (length (objs w)) (move_ctor r w) = Get r w
       \<and> calls (move_ctor r w) = calls w
       \<and> Get r (move_assign this r w) = nullptr
       \<and> Get this (move_assign this r w) = Get r w
       \<and> map (\<lambda>c. (callee c, arg c)) (calls (move_assign this r w)) =
           map (\<lambda>c. (callee c, arg c)) (calls w) @
           (if Get this w \<noteq> nullptr then [(GetDeleter this w, Get this w)] else [])"
  using assms
  by (auto simp add: move_ctor_def move_assign_def Release_def Reset_def member_defs
      Let_def nth_append)

theorem move_transfers_pointer_witness:
  "Get 0 (move_ctor 0 scenario) = nullptr
   \<and> Get 3 (move_ctor 0 scenario) = Addr 1
   \<and> calls (move_ctor 0 scenario) = []
   \<and> Get 0 (move_assign 1 0 scenario) = nullptr
   \<and> Get 1 (move_assign 1 0 scenario) = Addr 1
   \<and> map (\<lambda>c. (callee c, arg c)) (calls (move_assign 1 0 scenario)) = [(20, Addr 2)]"
proof -
  have len: "length (objs scenario) = 3"
    by (simp add: scenario_def)
  have valid: "0 < length (objs scenario)" "1 < length (objs scenario)" "(1::nat) \<noteq> 0"
    by (simp_all add: len)
  have before: "Get 0 scenario = Addr 1" "Get 1 scenario = Addr 2"
    "GetDeleter 1 scenario = 20" "calls scenario = []"
    by (simp_all add: scenario_def Get_def GetDeleter_def)
  note inst = move_transfers_pointer [OF valid, unfolded len before]
  from inst show ?thesis
    by simp
qed

text \<open>The same holds for the specialisation for arrays.\<close>

lemma move_arr_transfers_pointer:
  assumes "r < length (objs w)" and "this < length (objs w)" and "this \<noteq> r"
  shows "Get_arr r (move_ctor_arr r w) = nullptr"
    and "Get_arr (length (objs w)) (move_ctor_arr r w) = Get_arr r w"
    and "calls (move_ctor_arr r w) = calls w"
    and "Get_arr r (move_assign_arr this r w) = nullptr"
    and "Get_arr this (move_assign_arr this r w) = Get_arr r w"
    and "map (\<lambda>c. (callee c, arg c)) (calls (move_assign_arr this r w)) =
           map (\<lambda>c. (callee c, arg c)) (calls w) @
           (if Get_arr this w \<noteq> nullptr then [(GetDeleter_arr this w, Get_arr this w)] else [])"
  using assms
  by (auto simp add: move_ctor_arr_def move_assign_arr_def Release_arr_def Reset_arr_def
      member_defs Let_def nth_append)


subsection \<open>Swap\<close>

text \<open>
  \<^verbatim>\<open>Swap\<close> is three moves through a local handle. The steps are followed one by one; each
  move assignment inside \<^verbatim>\<open>Swap\<close> finds its destination empty, so no deleter runs.
\<close>

lemma move_ctor_objs:
  assumes "r < length (objs w)"
  shows "move_ctor r w =
    w\<lparr>objs := (objs w)[r := (objs w ! r)\<lparr>m_ptr := nullptr\<rparr>] @ [objs w ! r]\<rparr>"
  using assms
  by (simp add: move_ctor_def Release_def member_defs UniquePtr_copy_fields)

lemma move_assign_empty_destination:
  assumes "this < length (objs w)" and "r < length (objs w)" and "this \<noteq> r"
    and "m_ptr (objs w ! this) = nullptr"
  shows "move_assign this r w =
    w\<lparr>objs := (objs w)[r := (objs w ! r)\<lparr>m_ptr := nullptr\<rparr>, this := objs w ! r]\<rparr>"
  using assms
  by (simp add: move_assign_def Release_def Reset_def member_defs UniquePtr_copy_fields)

lemma dtor_empty:
  assumes "m_ptr (objs w ! this) = nullptr"
  shows "dtor this w = w"
  using assms by (simp add: dtor_def Get_def)

lemma Swap_distinct:
  assumes a: "a < length (objs w)" and b: "b < length (objs w)" and ab: "a \<noteq> b"
  shows "Swap a b w = w\<lparr>objs := (objs w)[a := objs w ! b, b := objs w ! a]\<rparr>"
proof -
  define xs where "xs = objs w"
  define n where "n = length xs"
  define e where "e = (\<lambda>h :: 'a UniquePtr. h\<lparr>m_ptr := nullptr\<rparr>)"
  have an: "a < n" and bn: "b < n"
    using a b by (simp_all add: n_def xs_def)
  \<comment> \<open>\<^verbatim>\<open>UniquePtr temp = std::move(other);\<close>\<close>
  define w1 where "w1 = move_ctor b w"
  have w1: "w1 = w\<lparr>objs := xs[b := e (xs ! b)] @ [xs ! b]\<rparr>"
    unfolding w1_def using move_ctor_objs [OF b] by (simp add: xs_def e_def)
  \<comment> \<open>\<^verbatim>\<open>other = std::move(*this);\<close>\<close>
  define w2 where "w2 = move_assign b a w1"
  have w2: "w2 = w\<lparr>objs := xs[b := xs ! a, a := e (xs ! a)] @ [xs ! b]\<rparr>"
  proof -
    have "w2 = w1\<lparr>objs := (objs w1)[a := (objs w1 ! a)\<lparr>m_ptr := nullptr\<rparr>, b := objs w1 ! a]\<rparr>"
      unfolding w2_def using an bn ab
      by (intro move_assign_empty_destination)
        (simp_all add: w1 n_def [symmetric] nth_append e_def)
    then show ?thesis
      using an bn ab
      by (simp add: w1 n_def [symmetric] nth_append list_update_append e_def
          list_update_swap [of a b])
  qed
  \<comment> \<open>\<^verbatim>\<open>*this = std::move(temp);\<close>\<close>
  define w3 where "w3 = move_assign a n w2"
  have w3: "w3 = w\<lparr>objs := xs[b := xs ! a, a := xs ! b] @ [e (xs ! b)]\<rparr>"
  proof -
    have "w3 = w2\<lparr>objs := (objs w2)[n := (objs w2 ! n)\<lparr>m_ptr := nullptr\<rparr>, a := objs w2 ! n]\<rparr>"
      unfolding w3_def using an bn ab
      by (intro move_assign_empty_destination)
        (simp_all add: w2 n_def [symmetric] nth_append e_def)
    then show ?thesis
      using an bn ab
      by (simp add: w2 n_def [symmetric] nth_append list_update_append e_def)
  qed
  \<comment> \<open>the destructor of \<^verbatim>\<open>temp\<close>, which is empty by now\<close>
  have w4: "dtor n w3 = w3"
    by (rule dtor_empty) (simp add: w3 n_def [symmetric] nth_append e_def)
  have "Swap a b w = w3\<lparr>objs := butlast (objs w3)\<rparr>"
    by (simp add: Swap_def Let_def w1_def w2_def w3_def n_def xs_def
        w4 [unfolded w3_def w2_def w1_def n_def xs_def])
  also have "\<dots> = w\<lparr>objs := xs[b := xs ! a, a := xs ! b]\<rparr>"
    by (simp add: w3)
  finally show ?thesis
    using ab by (simp add: xs_def list_update_swap [of a b])
qed

lemma Swap_self:
  assumes a: "a < length (objs w)"
  shows "Swap a a w = w"
proof -
  define xs where "xs = objs w"
  define n where "n = length xs"
  define e where "e = (\<lambda>h :: 'a UniquePtr. h\<lparr>m_ptr := nullptr\<rparr>)"
  have an: "a < n"
    using a by (simp add: n_def xs_def)
  define w1 where "w1 = move_ctor a w"
  have w1: "w1 = w\<lparr>objs := xs[a := e (xs ! a)] @ [xs ! a]\<rparr>"
    unfolding w1_def using move_ctor_objs [OF a] by (simp add: xs_def e_def)
  \<comment> \<open>\<^verbatim>\<open>other = std::move(*this);\<close> is the self-assignment\<close>
  have w2: "move_assign a a w1 = w1"
    by (simp add: move_assign_def)
  define w3 where "w3 = move_assign a n w1"
  have w3: "w3 = w\<lparr>objs := xs @ [e (xs ! a)]\<rparr>"
  proof -
    have "w3 = w1\<lparr>objs := (objs w1)[n := (objs w1 ! n)\<lparr>m_ptr := nullptr\<rparr>, a := objs w1 ! n]\<rparr>"
      unfolding w3_def using an
      by (intro move_assign_empty_destination)
        (simp_all add: w1 n_def [symmetric] nth_append e_def)
    then show ?thesis
      using an
      by (simp add: w1 n_def [symmetric] nth_append list_update_append e_def)
  qed
  have w4: "dtor n w3 = w3"
    by (rule dtor_empty) (simp add: w3 n_def [symmetric] nth_append e_def)
  have "Swap a a w = w3\<lparr>objs := butlast (objs w3)\<rparr>"
    by (simp add: Swap_def Let_def w1_def w3_def n_def xs_def w2 [unfolded w1_def]
        w4 [unfolded w3_def w1_def n_def xs_def])
  also have "\<dots> = w"
    by (simp add: w3 xs_def)
  finally show ?thesis .
qed

text \<open>
  When each handle holds its own deleter, \<^verbatim>\<open>a.Swap(b)\<close> exchanges both stored fields:
  afterwards \<open>a\<close> holds what \<open>b\<close> held, with the releaser \<open>b\<close> had, and conversely. The
  call invokes no releaser, no other handle changes, and swapping a handle with itself
  changes nothing.
\<close>

theorem Swap_exchanges_both_fields:
  assumes "a < length (objs w)" and "b < length (objs w)"
  shows "Get a (Swap a b w) = Get b w \<and> GetDeleter a (Swap a b w) = GetDeleter b w
       \<and> Get b (Swap a b w) = Get a w \<and> GetDeleter b (Swap a b w) = GetDeleter a w
       \<and> calls (Swap a b w) = calls w
       \<and> objs (Swap a b w) = (objs w)[a := objs w ! b, b := objs w ! a]
       \<and> Swap a a w = w"
proof (cases "a = b")
  case True
  with assms show ?thesis
    by (simp add: Swap_self)
next
  case False
  with assms show ?thesis
    by (simp add: Swap_distinct Swap_self Get_def GetDeleter_def)
qed

theorem Swap_exchanges_both_fields_witness:
  "Get 0 (Swap 0 1 scenario) = Addr 2 \<and> GetDeleter 0 (Swap 0 1 scenario) = 20
   \<and> Get 1 (Swap 0 1 scenario) = Addr 1 \<and> GetDeleter 1 (Swap 0 1 scenario) = 10
   \<and> calls (Swap 0 1 scenario) = []
   \<and> Swap 0 0 scenario = scenario"
proof -
  have len: "length (objs scenario) = 3"
    by (simp add: scenario_def)
  have valid: "0 < length (objs scenario)" "1 < length (objs scenario)"
    by (simp_all add: len)
  have before: "Get 0 scenario = Addr 1" "Get 1 scenario = Addr 2"
    "GetDeleter 0 scenario = 10" "GetDeleter 1 scenario = 20" "calls scenario = []"
    by (simp_all add: scenario_def Get_def GetDeleter_def)
  note inst = Swap_exchanges_both_fields [OF valid, unfolded before]
  from inst show ?thesis
    by simp
qed

text \<open>
  \<^verbatim>\<open>Swap\<close> of the specialisation for arrays has the same text and, for handles that hold
  their own deleters, the same effect.
\<close>

lemma move_ctor_arr_objs:
  assumes "r < length (objs w)"
  shows "move_ctor_arr r w =
    w\<lparr>objs := (objs w)[r := (objs w ! r)\<lparr>m_ptr := nullptr\<rparr>] @ [objs w ! r]\<rparr>"
  using assms
  by (simp add: move_ctor_arr_def Release_arr_def member_defs UniquePtr_copy_fields)

lemma move_assign_arr_empty_destination:
  assumes "this < length (objs w)" and "r < length (objs w)" and "this \<noteq> r"
    and "m_ptr (objs w ! this) = nullptr"
  shows "move_assign_arr this r w =
    w\<lparr>objs := (objs w)[r := (objs w ! r)\<lparr>m_ptr := nullptr\<rparr>, this := objs w ! r]\<rparr>"
  using assms
  by (simp add: move_assign_arr_def Release_arr_def Reset_arr_def member_defs UniquePtr_copy_fields)

lemma dtor_arr_empty:
  assumes "m_ptr (objs w ! this) = nullptr"
  shows "dtor_arr this w = w"
  using assms by (simp add: dtor_arr_def Get_arr_def)

lemma Swap_arr_distinct:
  assumes a: "a < length (objs w)" and b: "b < length (objs w)" and ab: "a \<noteq> b"
  shows "Swap_arr a b w = w\<lparr>objs := (objs w)[a := objs w ! b, b := objs w ! a]\<rparr>"
proof -
  define xs where "xs = objs w"
  define n where "n = length xs"
  define e where "e = (\<lambda>h :: 'a UniquePtr. h\<lparr>m_ptr := nullptr\<rparr>)"
  have an: "a < n" and bn: "b < n"
    using a b by (simp_all add: n_def xs_def)
  \<comment> \<open>\<^verbatim>\<open>UniquePtr temp = std::move(other);\<close>\<close>
  define w1 where "w1 = move_ctor_arr b w"
  have w1: "w1 = w\<lparr>objs := xs[b := e (xs ! b)] @ [xs ! b]\<rparr>"
    unfolding w1_def using move_ctor_arr_objs [OF b] by (simp add: xs_def e_def)
  \<comment> \<open>\<^verbatim>\<open>other = std::move(*this);\<close>\<close>
  define w2 where "w2 = move_assign_arr b a w1"
  have w2: "w2 = w\<lparr>objs := xs[b := xs ! a, a := e (xs ! a)] @ [xs ! b]\<rparr>"
  proof -
    have "w2 = w1\<lparr>objs := (objs w1)[a := (objs w1 ! a)\<lparr>m_ptr := nullptr\<rparr>, b := objs w1 ! a]\<rparr>"
      unfolding w2_def using an bn ab
      by (intro move_assign_arr_empty_destination)
        (simp_all add: w1 n_def [symmetric] nth_append e_def)
    then show ?thesis
      using an bn ab
      by (simp add: w1 n_def [symmetric] nth_append list_update_append e_def
          list_update_swap [of a b])
  qed
  \<comment> \<open>\<^verbatim>\<open>*this = std::move(temp);\<close>\<close>
  define w3 where "w3 = move_assign_arr a n w2"
  have w3: "w3 = w\<lparr>objs := xs[b := xs ! a, a := xs ! b] @ [e (xs ! b)]\<rparr>"
  proof -
    have "w3 = w2\<lparr>objs := (objs w2)[n := (objs w2 ! n)\<lparr>m_ptr := nullptr\<rparr>, a := objs w2 ! n]\<rparr>"
      unfolding w3_def using an bn ab
      by (intro move_assign_arr_empty_destination)
        (simp_all add: w2 n_def [symmetric] nth_append e_def)
    then show ?thesis
      using an bn ab
      by (simp add: w2 n_def [symmetric] nth_append list_update_append e_def)
  qed
  \<comment> \<open>the destructor of \<^verbatim>\<open>temp\<close>, which is empty by now\<close>
  have w4: "dtor_arr n w3 = w3"
    by (rule dtor_arr_empty) (simp add: w3 n_def [symmetric] nth_append e_def)
  have "Swap_arr a b w = w3\<lparr>objs := butlast (objs w3)\<rparr>"
    by (simp add: Swap_arr_def Let_def w1_def w2_def w3_def n_def xs_def
        w4 [unfolded w3_def w2_def w1_def n_def xs_def])
  also have "\<dots> = w\<lparr>objs := xs[b := xs ! a, a := xs ! b]\<rparr>"
    by (simp add: w3)
  finally show ?thesis
    using ab by (simp add: xs_def list_update_swap [of a b])
qed

lemma Swap_arr_self:
  assumes a: "a < length (objs w)"
  shows "Swap_arr a a w = w"
proof -
  define xs where "xs = objs w"
  define n where "n = length xs"
  define e where "e = (\<lambda>h :: 'a UniquePtr. h\<lparr>m_ptr := nullptr\<rparr>)"
  have an: "a < n"
    using a by (simp add: n_def xs_def)
  define w1 where "w1 = move_ctor_arr a w"
  have w1: "w1 = w\<lparr>objs := xs[a := e (xs ! a)] @ [xs ! a]\<rparr>"
    unfolding w1_def using move_ctor_arr_objs [OF a] by (simp add: xs_def e_def)
  \<comment> \<open>\<^verbatim>\<open>other = std::move(*this);\<close> is the self-assignment\<close>
  have w2: "move_assign_arr a a w1 = w1"
    by (simp add: move_assign_arr_def)
  define w3 where "w3 = move_assign_arr a n w1"
  have w3: "w3 = w\<lparr>objs := xs @ [e (xs ! a)]\<rparr>"
  proof -
    have "w3 = w1\<lparr>objs := (objs w1)[n := (objs w1 ! n)\<lparr>m_ptr := nullptr\<rparr>, a := objs w1 ! n]\<rparr>"
      unfolding w3_def using an
      by (intro move_assign_arr_empty_destination)
        (simp_all add: w1 n_def [symmetric] nth_append e_def)
    then show ?thesis
      using an
      by (simp add: w1 n_def [symmetric] nth_append list_update_append e_def)
  qed
  have w4: "dtor_arr n w3 = w3"
    by (rule dtor_arr_empty) (simp add: w3 n_def [symmetric] nth_append e_def)
  have "Swap_arr a a w = w3\<lparr>objs := butlast (objs w3)\<rparr>"
    by (simp add: Swap_arr_def Let_def w1_def w3_def n_def xs_def w2 [unfolded w1_def]
        w4 [unfolded w3_def w1_def n_def xs_def])
  also have "\<dots> = w"
    by (simp add: w3 xs_def)
  finally show ?thesis .
qed

lemma Swap_arr_exchanges_both_fields:
  assumes "a < length (objs w)" and "b < length (objs w)"
  shows "objs (Swap_arr a b w) = (objs w)[a := objs w ! b, b := objs w ! a]"
    and "calls (Swap_arr a b w) = calls w"
    and "Swap_arr a a w = w"
  using assms by (cases "a = b"; simp add: Swap_arr_distinct Swap_arr_self)+


subsection \<open>Swap with a deleter of reference type\<close>

lemmas ref_defs =
  Get_ref_def GetDeleter_ref_def set_ptr_ref_def assign_d_ref_def invoke_ref_def

lemma move_ctor_ref_handles:
  assumes "r < length (handles w)"
  shows "move_ctor_ref r w =
    w\<lparr>handles := (handles w)[r := (handles w ! r)\<lparr>m_ptr := nullptr\<rparr>] @ [handles w ! r]\<rparr>"
  using assms
  by (simp add: move_ctor_ref_def Release_ref_def ref_defs UniquePtr_copy_fields)

lemma move_assign_ref_empty_destination:
  assumes "this < length (handles w)" and "r < length (handles w)" and "this \<noteq> r"
    and "m_ptr (handles w ! this) = nullptr"
  shows "move_assign_ref this r w =
    w\<lparr>handles := (handles w)[r := (handles w ! r)\<lparr>m_ptr := nullptr\<rparr>,
                              this := (handles w ! this)\<lparr>m_ptr := m_ptr (handles w ! r)\<rparr>],
      deleters := (deleters w)[m_d (handles w ! this) := deleters w ! m_d (handles w ! r)]\<rparr>"
  using assms
  by (simp add: move_assign_ref_def Release_ref_def Reset_ref_def ref_defs)

lemma dtor_ref_empty:
  assumes "m_ptr (handles w ! this) = nullptr"
  shows "dtor_ref this w = w"
  using assms by (simp add: dtor_ref_def Get_ref_def)

text \<open>
  What \<^verbatim>\<open>Swap\<close> does to two distinct handles with reference deleters: the pointers are
  exchanged, each handle keeps referring to its own deleter object, and the deleter
  object of \<open>b\<close> receives the value of the deleter object of \<open>a\<close>. The last move
  assignment copies that value back into the deleter object of \<open>a\<close>, where it came from.
\<close>

lemma Swap_ref_distinct:
  assumes a: "a < length (handles w)" and b: "b < length (handles w)" and ab: "a \<noteq> b"
    and ka: "m_d (handles w ! a) < length (deleters w)"
    and kb: "m_d (handles w ! b) < length (deleters w)"
  shows "Swap_ref a b w =
    w\<lparr>handles := (handles w)[a := (handles w ! a)\<lparr>m_ptr := m_ptr (handles w ! b)\<rparr>,
                              b := (handles w ! b)\<lparr>m_ptr := m_ptr (handles w ! a)\<rparr>],
      deleters := (deleters w)[m_d (handles w ! b) := deleters w ! m_d (handles w ! a)]\<rparr>"
proof -
  define xs where "xs = handles w"
  define ds where "ds = deleters w"
  define n where "n = length xs"
  define e where "e = (\<lambda>h :: nat UniquePtr. h\<lparr>m_ptr := nullptr\<rparr>)"
  have an: "a < n" and bn: "b < n"
    using a b by (simp_all add: n_def xs_def)
  have ka': "m_d (xs ! a) < length ds" and kb': "m_d (xs ! b) < length ds"
    using ka kb by (simp_all add: xs_def ds_def)
  \<comment> \<open>\<^verbatim>\<open>UniquePtr temp = std::move(other);\<close> binds \<^verbatim>\<open>temp._d\<close> to the deleter object of \<open>b\<close>\<close>
  define w1 where "w1 = move_ctor_ref b w"
  have w1: "w1 = w\<lparr>handles := xs[b := e (xs ! b)] @ [xs ! b]\<rparr>"
    unfolding w1_def using move_ctor_ref_handles [OF b] by (simp add: xs_def e_def)
  \<comment> \<open>\<^verbatim>\<open>other = std::move(*this);\<close> overwrites the deleter object of \<open>b\<close>\<close>
  define w2 where "w2 = move_assign_ref b a w1"
  have w2: "w2 = w\<lparr>handles := xs[b := (xs ! b)\<lparr>m_ptr := m_ptr (xs ! a)\<rparr>, a := e (xs ! a)]
                                @ [xs ! b],
                    deleters := ds[m_d (xs ! b) := ds ! m_d (xs ! a)]\<rparr>"
  proof -
    have "w2 = w1\<lparr>handles := (handles w1)[a := (handles w1 ! a)\<lparr>m_ptr := nullptr\<rparr>,
                       b := (handles w1 ! b)\<lparr>m_ptr := m_ptr (handles w1 ! a)\<rparr>],
                  deleters := (deleters w1)
                      [m_d (handles w1 ! b) := deleters w1 ! m_d (handles w1 ! a)]\<rparr>"
      unfolding w2_def using an bn ab
      by (intro move_assign_ref_empty_destination)
        (simp_all add: w1 n_def [symmetric] nth_append e_def)
    then show ?thesis
      using an bn ab
      by (simp add: w1 n_def [symmetric] nth_append list_update_append e_def ds_def
          list_update_swap [of a b])
  qed
  \<comment> \<open>\<^verbatim>\<open>*this = std::move(temp);\<close> reads the deleter object of \<open>b\<close>, already overwritten\<close>
  define w3 where "w3 = move_assign_ref a n w2"
  have w3: "w3 = w\<lparr>handles := xs[b := (xs ! b)\<lparr>m_ptr := m_ptr (xs ! a)\<rparr>,
                                 a := (xs ! a)\<lparr>m_ptr := m_ptr (xs ! b)\<rparr>] @ [e (xs ! b)],
                    deleters := ds[m_d (xs ! b) := ds ! m_d (xs ! a)]\<rparr>"
  proof -
    have "w3 = w2\<lparr>handles := (handles w2)[n := (handles w2 ! n)\<lparr>m_ptr := nullptr\<rparr>,
                       a := (handles w2 ! a)\<lparr>m_ptr := m_ptr (handles w2 ! n)\<rparr>],
                  deleters := (deleters w2)
                      [m_d (handles w2 ! a) := deleters w2 ! m_d (handles w2 ! n)]\<rparr>"
      unfolding w3_def using an bn ab
      by (intro move_assign_ref_empty_destination)
        (simp_all add: w2 n_def [symmetric] nth_append e_def)
    moreover have "(ds[m_d (xs ! b) := ds ! m_d (xs ! a)])
                     [m_d (xs ! a) := ds[m_d (xs ! b) := ds ! m_d (xs ! a)] ! m_d (xs ! b)]
                   = ds[m_d (xs ! b) := ds ! m_d (xs ! a)]"
      using ka' kb' by (cases "m_d (xs ! a) = m_d (xs ! b)") (simp_all add: list_update_swap)
    ultimately show ?thesis
      using an bn ab
      by (simp add: w2 n_def [symmetric] nth_append list_update_append e_def)
  qed
  have w4: "dtor_ref n w3 = w3"
    by (rule dtor_ref_empty) (simp add: w3 n_def [symmetric] nth_append e_def)
  have "Swap_ref a b w = w3\<lparr>handles := butlast (handles w3)\<rparr>"
    by (simp add: Swap_ref_def Let_def w1_def w2_def w3_def n_def xs_def
        w4 [unfolded w3_def w2_def w1_def n_def xs_def])
  also have "\<dots> = w\<lparr>handles := xs[b := (xs ! b)\<lparr>m_ptr := m_ptr (xs ! a)\<rparr>,
                                 a := (xs ! a)\<lparr>m_ptr := m_ptr (xs ! b)\<rparr>],
                    deleters := ds[m_d (xs ! b) := ds ! m_d (xs ! a)]\<rparr>"
    by (simp add: w3)
  finally show ?thesis
    using ab by (simp add: xs_def ds_def list_update_swap [of a b])
qed

text \<open>
  Claim C5. For every pair of handles \<open>a\<close> holding \<open>X\<close> and \<open>b\<close> holding \<open>Y\<close> of the same
  parameterization, \<^verbatim>\<open>a.Swap(b)\<close> should exchange both stored fields, so that \<open>a\<close> holds \<open>Y\<close>
  with \<open>b\<close>'s prior releaser and \<open>b\<close> holds \<open>X\<close> with \<open>a\<close>'s prior releaser, without
  invoking the releaser. With a releaser of reference type the code does not exchange
  the releasers: for \<open>a\<close> holding \<open>Addr 1\<close> with the releaser \<open>10\<close> and \<open>b\<close> holding \<open>Addr 2\<close>
  with the releaser \<open>20\<close>, after \<^verbatim>\<open>a.Swap(b)\<close> the pointers are exchanged and no releaser
  has run, but both handles have the releaser \<open>10\<close>: the deleter object of \<open>b\<close> has been
  overwritten, and the destructor of \<open>a\<close> then releases \<open>Addr 2\<close> with \<open>10\<close>.
\<close>

theorem Swap_ref_loses_releaser:
  "Get_ref 0 ref_scenario = Addr 1 \<and> GetDeleter_ref 0 ref_scenario = 10
   \<and> Get_ref 1 ref_scenario = Addr 2 \<and> GetDeleter_ref 1 ref_scenario = 20
   \<and> Get_ref 0 (Swap_ref 0 1 ref_scenario) = Addr 2
   \<and> GetDeleter_ref 0 (Swap_ref 0 1 ref_scenario) = 10
   \<and> Get_ref 1 (Swap_ref 0 1 ref_scenario) = Addr 1
   \<and> GetDeleter_ref 1 (Swap_ref 0 1 ref_scenario) = 10
   \<and> deleters (Swap_ref 0 1 ref_scenario) = [10, 10]
   \<and> released (Swap_ref 0 1 ref_scenario) = []
   \<and> released (dtor_ref 0 (Swap_ref 0 1 ref_scenario)) = [(10, Addr 2)]"
  by (simp add: Swap_ref_def move_ctor_ref_def move_assign_ref_def dtor_ref_def Release_ref_def
      Reset_ref_def ref_defs ref_scenario_def)

subsection \<open>Indexing the array variant\<close>

text \<open>
  Claim C2. For the array variant, the indexing operator applied to \<open>i\<close> should return a
  reference to the element at \<^verbatim>\<open>Get() + i\<close> of the held buffer. The code writes
  \<^verbatim>\<open>Get[i]\<close>: for a handle whose buffer starts at \<open>Addr 2\<close> and index \<open>1\<close>, the operator as
  written is ill-formed, while subscripting the value of \<^verbatim>\<open>Get()\<close> designates element
  \<open>3\<close>, the one the claim describes.
\<close>

theorem operator_index_subscripts_function_name:
  "operator_index 1 1 scenario = Inl IllFormed
   \<and> subscript (PointerValue (Get_arr 1 scenario)) 1 = Inr 3"
  by (simp add: operator_index_def Get_arr_def scenario_def)

subsection \<open>Constructors\<close>

text \<open>
  Claim C8, as stated: when the releaser type is a plain pointer type, no reachable handle
  ever stores a null callable and the destructor never invokes one. The constructors
  taking a pointer and a releaser stay available for such a type and store the releaser
  they are given: from \<open>Addr 1\<close> and the null function pointer, the constructor taking
  \<^verbatim>\<open>const deleter_type&\<close> builds a handle whose releaser is null, and the destructor of
  that handle calls the null releaser on \<open>Addr 1\<close>.
\<close>

theorem null_function_pointer_releaser_counterexample:
  "is_pointer function_pointer_deleter
   \<and> ctor_ptr_const_ref function_pointer_deleter (Addr 1) nullptr
       = Some \<lparr>m_ptr = Addr 1, m_d = nullptr\<rparr>
   \<and> map (\<lambda>c. (callee c, arg c))
        (calls (dtor 0 \<lparr>objs = [\<lparr>m_ptr = Addr 1, m_d = nullptr\<rparr>], calls = []\<rparr>))
       = [(nullptr, Addr 1)]"
  by (simp add: function_pointer_deleter_def ctor_ptr_const_ref_def dtor_def member_defs)

text \<open>
  The invariant is kept by every step a client can take. The members of the
  specialisation for arrays differ from those of the primary template only in \<^verbatim>\<open>Reset\<close>.
\<close>

lemma built_non_null:
  assumes "built D h" and "is_pointer D"
  shows "m_d h \<noteq> nullptr"
  using assms
  by (induction rule: built.induct)
    (auto simp add: ctor_default_def ctor_nullptr_def ctor_ptr_def ctor_ptr_const_ref_def
      ctor_ptr_rvalue_def ctor_ptr_ref_def ctor_arr_default_def ctor_arr_nullptr_def
      ctor_arr_ptr_def ctor_arr_ptr_const_ref_def ctor_arr_ptr_rvalue_def ctor_arr_ptr_ref_def
      split: if_splits)

lemma nn_deleter:
  assumes "non_null_releasers w" and "this < length (objs w)"
  shows "m_d (objs w ! this) \<noteq> nullptr"
  using assms by (simp add: non_null_releasers_def)

lemma nn_set_ptr:
  assumes "non_null_releasers w"
  shows "non_null_releasers (set_ptr this p w)"
proof (cases "this < length (objs w)")
  case True
  have "set ((objs w)[this := (objs w ! this)\<lparr>m_ptr := p\<rparr>])
          \<subseteq> insert ((objs w ! this)\<lparr>m_ptr := p\<rparr>) (set (objs w))"
    by (rule set_update_subset_insert)
  with assms nn_deleter [OF assms True] show ?thesis
    by (auto simp add: non_null_releasers_def set_ptr_def)
next
  case False
  then have "(objs w)[this := (objs w ! this)\<lparr>m_ptr := p\<rparr>] = objs w"
    by (simp add: list_update_beyond)
  with assms show ?thesis
    by (simp add: non_null_releasers_def set_ptr_def)
qed

lemma nn_set_d:
  assumes "non_null_releasers w" and "d \<noteq> nullptr"
  shows "non_null_releasers (set_d this d w)"
proof -
  have "set ((objs w)[this := (objs w ! this)\<lparr>m_d := d\<rparr>])
          \<subseteq> insert ((objs w ! this)\<lparr>m_d := d\<rparr>) (set (objs w))"
    by (rule set_update_subset_insert)
  with assms show ?thesis
    by (auto simp add: non_null_releasers_def set_d_def)
qed

lemma nn_invoke:
  assumes "non_null_releasers w" and "d \<noteq> nullptr"
  shows "non_null_releasers (invoke d p w)"
  using assms by (simp add: non_null_releasers_def invoke_def)

lemma nn_push:
  assumes "non_null_releasers w" and "m_d h \<noteq> nullptr"
  shows "non_null_releasers (w\<lparr>objs := objs w @ [h]\<rparr>)"
  using assms by (simp add: non_null_releasers_def)

lemma nn_pop:
  assumes "non_null_releasers w"
  shows "non_null_releasers (w\<lparr>objs := butlast (objs w)\<rparr>)"
  using assms by (auto simp add: non_null_releasers_def dest: in_set_butlastD)

lemma length_set_ptr [simp]: "length (objs (set_ptr this p w)) = length (objs w)"
  by (simp add: set_ptr_def)

lemma length_set_d [simp]: "length (objs (set_d this d w)) = length (objs w)"
  by (simp add: set_d_def)

lemma length_invoke [simp]: "length (objs (invoke d p w)) = length (objs w)"
  by (simp add: invoke_def)

lemma nn_Release:
  assumes "non_null_releasers w"
  shows "non_null_releasers (snd (Release this w))"
    and "length (objs (snd (Release this w))) = length (objs w)"
  using assms by (simp_all add: Release_def nn_set_ptr)

lemma nn_Reset:
  assumes "non_null_releasers w" and "this < length (objs w)"
  shows "non_null_releasers (Reset this p w)"
    and "length (objs (Reset this p w)) = length (objs w)"
proof -
  have "non_null_releasers (set_ptr this p w)"
    using assms(1) by (rule nn_set_ptr)
  moreover from this have "GetDeleter this (set_ptr this p w) \<noteq> nullptr"
    unfolding GetDeleter_def using assms(2) by (intro nn_deleter) simp_all
  ultimately show "non_null_releasers (Reset this p w)"
    by (simp add: Reset_def Let_def nn_invoke)
  show "length (objs (Reset this p w)) = length (objs w)"
    by (simp add: Reset_def Let_def)
qed

lemma nn_dtor:
  assumes "non_null_releasers w" and "this < length (objs w)"
  shows "non_null_releasers (dtor this w)"
    and "length (objs (dtor this w)) = length (objs w)"
  using assms nn_deleter [OF assms]
  by (simp_all add: dtor_def nn_invoke GetDeleter_def)

lemma nn_move_ctor:
  assumes "non_null_releasers w" and "r < length (objs w)"
  shows "non_null_releasers (move_ctor r w)"
    and "length (objs (move_ctor r w)) = Suc (length (objs w))"
proof -
  let ?w1 = "snd (Release r w)"
  have w1: "non_null_releasers ?w1" "length (objs ?w1) = length (objs w)"
    using assms(1) by (rule nn_Release)+
  have "GetDeleter r ?w1 \<noteq> nullptr"
    unfolding GetDeleter_def using w1 assms(2) by (intro nn_deleter) simp_all
  with w1 show "non_null_releasers (move_ctor r w)"
    by (simp add: move_ctor_def split_beta nn_push)
  from w1 show "length (objs (move_ctor r w)) = Suc (length (objs w))"
    by (simp add: move_ctor_def split_beta)
qed

lemma nn_converting_move_assign:
  assumes "non_null_releasers w" and "this < length (objs w)" and "r < length (objs w)"
  shows "non_null_releasers (converting_move_assign this r w)"
    and "length (objs (converting_move_assign this r w)) = length (objs w)"
proof -
  let ?w1 = "snd (Release r w)"
  let ?w2 = "Reset this (fst (Release r w)) ?w1"
  have w1: "non_null_releasers ?w1" "length (objs ?w1) = length (objs w)"
    using assms(1) by (rule nn_Release)+
  have w2: "non_null_releasers ?w2" "length (objs ?w2) = length (objs w)"
    using nn_Reset [of ?w1 this] w1 assms(2) by simp_all
  have "GetDeleter r ?w2 \<noteq> nullptr"
    unfolding GetDeleter_def using w2 assms(3) by (intro nn_deleter) simp_all
  with w2 show "non_null_releasers (converting_move_assign this r w)"
    by (simp add: converting_move_assign_def split_beta Let_def nn_set_d)
  from w2 show "length (objs (converting_move_assign this r w)) = length (objs w)"
    by (simp add: converting_move_assign_def split_beta Let_def)
qed

lemma move_assign_cases:
  "move_assign this r w = (if this \<noteq> r then converting_move_assign this r w else w)"
  by (simp add: move_assign_def converting_move_assign_def)

lemma nn_move_assign:
  assumes "non_null_releasers w" and "this < length (objs w)" and "r < length (objs w)"
  shows "non_null_releasers (move_assign this r w)"
    and "length (objs (move_assign this r w)) = length (objs w)"
  using assms by (simp_all add: move_assign_cases nn_converting_move_assign)

lemma nn_Swap:
  assumes "non_null_releasers w" and "this < length (objs w)" and "other < length (objs w)"
  shows "non_null_releasers (Swap this other w)"
proof -
  define n where "n = length (objs w)"
  define w1 where "w1 = move_ctor other w"
  define w2 where "w2 = move_assign other this w1"
  define w3 where "w3 = move_assign this n w2"
  define w4 where "w4 = dtor n w3"
  have w1: "non_null_releasers w1" "length (objs w1) = Suc n"
    unfolding w1_def n_def using assms(1,3) by (rule nn_move_ctor)+
  have w2: "non_null_releasers w2" "length (objs w2) = Suc n"
    unfolding w2_def using nn_move_assign [of w1 other this] w1 assms(2,3)
    by (simp_all add: n_def)
  have w3: "non_null_releasers w3" "length (objs w3) = Suc n"
    unfolding w3_def using nn_move_assign [of w2 this n] w2 assms(2)
    by (simp_all add: n_def)
  have w4: "non_null_releasers w4"
    unfolding w4_def using nn_dtor(1) [of w3 n] w3 by simp
  have "Swap this other w = w4\<lparr>objs := butlast (objs w4)\<rparr>"
    by (simp add: Swap_def Let_def w4_def w3_def w2_def w1_def n_def)
  with w4 show ?thesis
    by (simp add: nn_pop)
qed


lemma arr_same_bodies:
  "Release_arr this w = Release this w"
  "dtor_arr this w = dtor this w"
  "move_ctor_arr r w = move_ctor r w"
  "converting_move_ctor r w = move_ctor r w"
  "converting_move_ctor_arr r w = move_ctor r w"
  "GetDeleter_arr this w = GetDeleter this w"
  "Get_arr this w = Get this w"
  by (simp_all add: Release_arr_def Release_def dtor_arr_def dtor_def move_ctor_arr_def
      move_ctor_def converting_move_ctor_def converting_move_ctor_arr_def Get_arr_def Get_def
      GetDeleter_arr_def GetDeleter_def)

lemma nn_Reset_arr:
  assumes "non_null_releasers w" and "this < length (objs w)"
  shows "non_null_releasers (Reset_arr this p w)"
    and "length (objs (Reset_arr this p w)) = length (objs w)"
proof -
  have "GetDeleter_arr this w \<noteq> nullptr"
    unfolding GetDeleter_arr_def using assms by (rule nn_deleter)
  with assms(1) show "non_null_releasers (Reset_arr this p w)"
    by (simp add: Reset_arr_def Let_def nn_invoke nn_set_ptr)
  show "length (objs (Reset_arr this p w)) = length (objs w)"
    by (simp add: Reset_arr_def Let_def)
qed

lemma nn_converting_move_assign_arr:
  assumes "non_null_releasers w" and "this < length (objs w)" and "r < length (objs w)"
  shows "non_null_releasers (converting_move_assign_arr this r w)"
    and "length (objs (converting_move_assign_arr this r w)) = length (objs w)"
proof -
  let ?w1 = "snd (Release r w)"
  let ?w2 = "Reset_arr this (fst (Release r w)) ?w1"
  have w1: "non_null_releasers ?w1" "length (objs ?w1) = length (objs w)"
    using assms(1) by (rule nn_Release)+
  have w2: "non_null_releasers ?w2" "length (objs ?w2) = length (objs w)"
    using nn_Reset_arr [of ?w1 this] w1 assms(2) by simp_all
  have "GetDeleter r ?w2 \<noteq> nullptr"
    unfolding GetDeleter_def using w2 assms(3) by (intro nn_deleter) simp_all
  with w2 show "non_null_releasers (converting_move_assign_arr this r w)"
    by (simp add: converting_move_assign_arr_def arr_same_bodies split_beta Let_def nn_set_d)
  from w2 show "length (objs (converting_move_assign_arr this r w)) = length (objs w)"
    by (simp add: converting_move_assign_arr_def arr_same_bodies split_beta Let_def)
qed

lemma move_assign_arr_cases:
  "move_assign_arr this r w =
     (if this \<noteq> r then converting_move_assign_arr this r w else w)"
  by (simp add: move_assign_arr_def converting_move_assign_arr_def)

lemma nn_move_assign_arr:
  assumes "non_null_releasers w" and "this < length (objs w)" and "r < length (objs w)"
  shows "non_null_releasers (move_assign_arr this r w)"
    and "length (objs (move_assign_arr this r w)) = length (objs w)"
  using assms by (simp_all add: move_assign_arr_cases nn_converting_move_assign_arr)

lemma nn_Swap_arr:
  assumes "non_null_releasers w" and "this < length (objs w)" and "other < length (objs w)"
  shows "non_null_releasers (Swap_arr this other w)"
proof -
  define n where "n = length (objs w)"
  define w1 where "w1 = move_ctor other w"
  define w2 where "w2 = move_assign_arr other this w1"
  define w3 where "w3 = move_assign_arr this n w2"
  define w4 where "w4 = dtor n w3"
  have w1: "non_null_releasers w1" "length (objs w1) = Suc n"
    unfolding w1_def n_def using assms(1,3) by (rule nn_move_ctor)+
  have w2: "non_null_releasers w2" "length (objs w2) = Suc n"
    unfolding w2_def using nn_move_assign_arr [of w1 other this] w1 assms(2,3)
    by (simp_all add: n_def)
  have w3: "non_null_releasers w3" "length (objs w3) = Suc n"
    unfolding w3_def using nn_move_assign_arr [of w2 this n] w2 assms(2)
    by (simp_all add: n_def)
  have w4: "non_null_releasers w4"
    unfolding w4_def using nn_dtor(1) [of w3 n] w3 by simp
  have "Swap_arr this other w = w4\<lparr>objs := butlast (objs w4)\<rparr>"
    by (simp add: Swap_arr_def arr_same_bodies Let_def w4_def w3_def w2_def w1_def n_def)
  with w4 show ?thesis
    by (simp add: nn_pop)
qed

lemma reachable_non_null:
  assumes "reachable D w" and "is_pointer D"
  shows "non_null_releasers w"
  using assms
proof (induction rule: reachable.induct)
  case start
  show ?case by (simp add: non_null_releasers_def)
next
  case (construct w h)
  then show ?case by (simp add: nn_push built_non_null)
next
  case (do_GetDeleter_assign w this d)
  then show ?case by (simp add: nn_set_d)
qed (simp_all add: arr_same_bodies assign_nullptr_def assign_nullptr_arr_def
      Reset_arr_nullptr_eq nn_move_ctor nn_dtor nn_move_assign nn_converting_move_assign
      nn_Release nn_Reset nn_Swap nn_Reset_arr nn_move_assign_arr
      nn_converting_move_assign_arr nn_Swap_arr)

text \<open>
  Claim C8, amended. For every instantiation whose releaser type is a plain
  (function-)pointer type, the default constructor, the \<^verbatim>\<open>nullptr\<close> constructor and the
  single-pointer constructor are unavailable, in both variants. So, provided no caller
  supplies a null function pointer as releaser, no reachable handle ever stores a null
  callable as its releaser, and neither the destructor nor any other member ever
  invokes a null releaser.
\<close>

theorem function_pointer_releaser_never_null:
  assumes "is_pointer D"
  shows "ctor_default D = None \<and> ctor_nullptr D = None \<and> ctor_ptr D p = None
       \<and> ctor_arr_default D = None \<and> ctor_arr_nullptr D = None
       \<and> ctor_arr_ptr conv T D U p = None
       \<and> (reachable D w \<longrightarrow>
            (\<forall>h \<in> set (objs w). m_d h \<noteq> nullptr)
            \<and> (\<forall>c \<in> set (calls w). callee c \<noteq> nullptr))"
  using assms reachable_non_null [of D w]
  by (simp add: ctor_default_def ctor_nullptr_def ctor_ptr_def ctor_arr_default_def
      ctor_arr_nullptr_def ctor_arr_ptr_def non_null_releasers_def)

theorem function_pointer_releaser_never_null_witness:
  "is_pointer function_pointer_deleter
   \<and> ctor_default function_pointer_deleter = None
   \<and> ctor_nullptr function_pointer_deleter = None
   \<and> ctor_ptr function_pointer_deleter (Addr 1) = None
   \<and> ctor_arr_default function_pointer_deleter = None
   \<and> ctor_arr_nullptr function_pointer_deleter = None
   \<and> ctor_arr_ptr (=) (Named ''int'') function_pointer_deleter (PointerTo (Named ''int''))
        (Addr 1) = None
   \<and> ctor_ptr_const_ref function_pointer_deleter (Addr 1) (Addr 8)
        = Some \<lparr>m_ptr = Addr 1, m_d = Addr 8\<rparr>
   \<and> dtor 0 \<lparr>objs = [\<lparr>m_ptr = Addr 1, m_d = Addr 8\<rparr>], calls = []\<rparr> = fp_world
   \<and> reachable function_pointer_deleter fp_world
   \<and> m_d (objs fp_world ! 0) \<noteq> nullptr
   \<and> callee (calls fp_world ! 0) \<noteq> nullptr"
proof -
  have fp: "is_pointer function_pointer_deleter"
    by (simp add: function_pointer_deleter_def)
  have ctor: "ctor_ptr_const_ref function_pointer_deleter (Addr 1) (Addr 8)
                = Some \<lparr>m_ptr = Addr 1, m_d = Addr 8\<rparr>"
    by (simp add: function_pointer_deleter_def ctor_ptr_const_ref_def)
  have "built function_pointer_deleter \<lparr>m_ptr = Addr 1, m_d = Addr 8\<rparr>"
    using ctor by (intro built.by_ptr_const_ref [of "Addr 8"]) simp_all
  from reachable.construct [OF reachable.start this]
  have one: "reachable function_pointer_deleter
               \<lparr>objs = [\<lparr>m_ptr = Addr 1, m_d = Addr 8\<rparr>], calls = []\<rparr>"
    by simp
  have run: "dtor 0 \<lparr>objs = [\<lparr>m_ptr = Addr 1, m_d = Addr 8\<rparr>], calls = []\<rparr> = fp_world"
    by (simp add: dtor_def fp_world_def member_defs)
  have "reachable function_pointer_deleter
          (dtor 0 \<lparr>objs = [\<lparr>m_ptr = Addr 1, m_d = Addr 8\<rparr>], calls = []\<rparr>)"
    by (rule reachable.do_dtor [OF one]) simp
  then have reach: "reachable function_pointer_deleter fp_world"
    unfolding run .
  have mem: "objs fp_world ! 0 \<in> set (objs fp_world)" "calls fp_world ! 0 \<in> set (calls fp_world)"
    by (simp_all add: fp_world_def)
  note inst = function_pointer_releaser_never_null [OF fp, of "Addr 1" "(=)" "Named ''int''" "PointerTo (Named ''int'')" fp_world]
  from inst reach mem show ?thesis
    using fp ctor run by blast
qed

text \<open>
  Claim C9. For the array variant, every constrained pointer-accepting constructor (the
  single-argument one and each pointer-plus-releaser form) accepts an argument of type
  \<^verbatim>\<open>std::nullptr_t\<close>: the disjunction on \<open>U\<close> holds for \<open>nullptr_t\<close> whatever the element and
  pointer types are, so each constructor is available exactly when its requirement on
  the releaser holds, and it builds a handle whose \<^verbatim>\<open>Get()\<close> is null. The rule without
  the \<open>nullptr_t\<close> case (the one \<^verbatim>\<open>Reset(U)\<close> uses) rejects \<open>nullptr_t\<close> unless the
  stored pointer type is itself \<open>nullptr_t\<close>.
\<close>

theorem array_ctors_accept_nullptr_t:
  "ctor_arr_accepts conv T D nullptr_t
   \<and> (Get_deleter_pointer_type T D \<noteq> nullptr_t \<longrightarrow> \<not> Reset_arr_accepts conv T D nullptr_t)
   \<and> ctor_arr_ptr conv T D nullptr_t nullptr =
       (if \<not> is_pointer D \<and> is_default_constructible D
        then Some \<lparr>m_ptr = nullptr, m_d = value_init D\<rparr> else None)
   \<and> ctor_arr_ptr_const_ref conv T D nullptr_t nullptr d =
       (if \<not> is_lvalue_reference D \<and> is_constructible_const_ref D
        then Some \<lparr>m_ptr = nullptr, m_d = d\<rparr> else None)
   \<and> ctor_arr_ptr_rvalue conv T D nullptr_t nullptr d =
       (if \<not> is_lvalue_reference D \<and> is_constructible_rvalue D
        then Some \<lparr>m_ptr = nullptr, m_d = d\<rparr> else None)
   \<and> ctor_arr_ptr_ref conv T D nullptr_t nullptr d =
       (if is_lvalue_reference D \<and> is_constructible_same D
        then Some \<lparr>m_ptr = nullptr, m_d = d\<rparr> else None)"
proof -
  have accepts: "ctor_arr_accepts conv T D nullptr_t"
    by (simp add: ctor_arr_accepts_def)
  have rule: "Get_deleter_pointer_type T D \<noteq> nullptr_t \<longrightarrow> \<not> Reset_arr_accepts conv T D nullptr_t"
    by (auto simp add: Reset_arr_accepts_def Let_def)
  show ?thesis
    using rule
    by (simp add: accepts ctor_arr_ptr_def ctor_arr_ptr_const_ref_def ctor_arr_ptr_rvalue_def
        ctor_arr_ptr_ref_def)
qed

theorem array_ctors_accept_nullptr_t_witness:
  "ctor_arr_accepts (=) (Named ''int'') function_object_deleter nullptr_t
   \<and> \<not> Reset_arr_accepts (=) (Named ''int'') function_object_deleter nullptr_t
   \<and> ctor_arr_ptr (=) (Named ''int'') function_object_deleter nullptr_t nullptr
       = Some \<lparr>m_ptr = nullptr, m_d = 0\<rparr>
   \<and> ctor_arr_ptr_const_ref (=) (Named ''int'') function_object_deleter nullptr_t nullptr 7
       = Some \<lparr>m_ptr = nullptr, m_d = 7\<rparr>
   \<and> ctor_arr_ptr_rvalue (=) (Named ''int'') function_object_deleter nullptr_t nullptr 7
       = Some \<lparr>m_ptr = nullptr, m_d = 7\<rparr>
   \<and> ctor_arr_ptr_ref (=) (Named ''int'') function_object_deleter nullptr_t nullptr 7 = None
   \<and> Get_arr 0 \<lparr>objs = [the (ctor_arr_ptr (=) (Named ''int'') function_object_deleter
                             nullptr_t nullptr)], calls = []\<rparr> = nullptr"
proof -
  have pointer_type:
    "Get_deleter_pointer_type (Named ''int'') function_object_deleter = PointerTo (Named ''int'')"
    by (simp add: Get_deleter_pointer_type_def function_object_deleter_def)
  have traits: "\<not> is_pointer function_object_deleter"
    "is_default_constructible function_object_deleter"
    "\<not> is_lvalue_reference function_object_deleter"
    "is_constructible_const_ref function_object_deleter"
    "is_constructible_rvalue function_object_deleter"
    "value_init function_object_deleter = 0"
    by (simp_all add: function_object_deleter_def)
  from array_ctors_accept_nullptr_t [of "(=)" "Named ''int''" function_object_deleter 7]
  show ?thesis
    by (simp add: pointer_type traits Get_arr_def)
qed

text \<open>
  With a releaser of reference type, the form taking \<^verbatim>\<open>deleter_type\<close> by value is the
  available one, and it accepts \<^verbatim>\<open>nullptr\<close> too.
\<close>

lemma ctor_arr_ptr_ref_nullptr_example:
  "ctor_arr_ptr_ref (=) (Named ''int'') reference_deleter nullptr_t nullptr 7
     = Some \<lparr>m_ptr = nullptr, m_d = 7\<rparr>"
  by (simp add: ctor_arr_ptr_ref_def ctor_arr_accepts_def reference_deleter_def)

end
